theory Spec2Isabelle
  imports Complex_Main "HOL-Library.AList"
begin

section \<open>Conventions of the embedding\<close>

text \<open>
  The clustering strategies of \<^verbatim>\<open>function_cluster.py\<close> and the pipeline of
  \<^verbatim>\<open>efr_classification.py\<close> are embedded as functions on explicit object states.
  A method \<^verbatim>\<open>m(self, X)\<close> becomes a function from the object and \<open>X\<close> to a pair: the
  outcome (\<open>Inl\<close> an exception, \<open>Inr\<close> the returned value) and the object after the call,
  so that a field assigned before an exception is raised stays assigned.

  scikit-learn, yellowbrick, pandas_ta and MetaTrader are not part of the repository.
  Each estimator class is a record of functions that every definition takes as its first
  argument; nothing is assumed about what these functions compute. Fitting with an integer
  \<^verbatim>\<open>random_state\<close> is a function of the parameters, the seed and the data.

  Finite floating-point numbers are modelled as reals (rounding is not modelled). Where
  pandas can produce them, NaN and the infinities are values of their own (\<open>pyfloat\<close>).
  The scores that the selection rules compare (AIC, BIC, WCSS) are finite floats.
\<close>

datatype error =
  ValueError string
  | AttributeError string
  | NotFittedError string
  | TypeError string
  | KeyError string

subsection \<open>numpy helpers\<close>

text \<open>\<^verbatim>\<open>np.argmin\<close> of a sequence without NaN: the index of the first occurrence of the
  minimum; it raises \<^verbatim>\<open>ValueError\<close> on an empty sequence.\<close>

fun argmin_from :: "real list \<Rightarrow> nat \<Rightarrow> nat \<Rightarrow> real \<Rightarrow> nat" where
  "argmin_from [] i best_i best = best_i"
| "argmin_from (x # xs) i best_i best =
     (if x < best then argmin_from xs (Suc i) i x else argmin_from xs (Suc i) best_i best)"

definition np_argmin :: "real list \<Rightarrow> error + int" where
  "np_argmin xs =
     (case xs of
        [] \<Rightarrow> Inl (ValueError ''attempt to get argmin of an empty sequence'')
      | x # rest \<Rightarrow> Inr (int (argmin_from rest 1 0 x)))"

text \<open>\<^verbatim>\<open>np.diff\<close>: the successive differences \<open>a[i+1] - a[i]\<close>; empty when the input has
  fewer than two entries.\<close>

fun np_diff :: "real list \<Rightarrow> real list" where
  "np_diff (x # y # ys) = (y - x) # np_diff (y # ys)"
| "np_diff _ = []"

section \<open>KMeansClustering\<close>

text \<open>The methods of scikit-learn's \<^verbatim>\<open>KMeans\<close> and yellowbrick's
  \<^verbatim>\<open>KElbowVisualizer\<close> that the class calls. \<open>'x\<close> is the type of the data, \<open>'m\<close> the
  fitted attributes of an estimator. \<^verbatim>\<open>init\<close>, \<^verbatim>\<open>n_init\<close>, \<^verbatim>\<open>max_iter\<close> and
  \<^verbatim>\<open>tol\<close> are the same constants at both construction sites and are part of \<open>sk_KMeans_fit\<close>.
  \<open>KElbow_elbow_value\<close> takes the seed of the model handed to the visualizer, the
  upper end of \<^verbatim>\<open>k=(2, max_clusters)\<close> and the data, and returns \<^verbatim>\<open>elbow_value_\<close>,
  which is \<^verbatim>\<open>None\<close> when no knee is found.\<close>

record ('x, 'm) sklearn_KMeans =
  sk_KMeans_fit :: "int option \<Rightarrow> int \<Rightarrow> 'x \<Rightarrow> error + 'm"
  sk_KMeans_predict :: "'m \<Rightarrow> 'x \<Rightarrow> error + int list"
  KElbow_elbow_value :: "int \<Rightarrow> int \<Rightarrow> 'x \<Rightarrow> error + int option"

text \<open>A \<^verbatim>\<open>KMeans\<close> estimator object: its parameters and, once fitted, its attributes.\<close>

record 'm KMeans =
  KMeans_n_clusters :: "int option"
  KMeans_random_state :: int
  KMeans_fitted :: "'m option"

record 'm KMeansClustering =
  km_max_clusters :: int
  km_random_state :: int
  km_n_clusters :: "int option"
  km_optimal_clusters :: "int option"
  km_kmeans :: "'m KMeans option"

definition KMeansClustering_init :: "int \<Rightarrow> int \<Rightarrow> int option \<Rightarrow> 'm KMeansClustering" where
  "KMeansClustering_init max_clusters random_state n_clusters =
     \<lparr>km_max_clusters = max_clusters, km_random_state = random_state,
      km_n_clusters = n_clusters, km_optimal_clusters = None, km_kmeans = None\<rparr>"

definition not_fitted_message :: string where
  "not_fitted_message =
     ''El modelo debe ser ajustado antes de hacer predicciones. Llama a fit(X) primero.''"

text \<open>The last two statements of \<^verbatim>\<open>fit\<close>: a new estimator is stored in \<^verbatim>\<open>self.kmeans\<close>
  and then fitted; when fitting raises, the stored estimator stays unfitted.\<close>

definition KMeansClustering_fit_model ::
  "('x, 'm) sklearn_KMeans \<Rightarrow> 'm KMeansClustering \<Rightarrow> 'x \<Rightarrow> (error + unit) \<times> 'm KMeansClustering" where
  "KMeansClustering_fit_model L self X =
     (let est = \<lparr>KMeans_n_clusters = km_optimal_clusters self,
                 KMeans_random_state = km_random_state self,
                 KMeans_fitted = None\<rparr>;
          self1 = self\<lparr>km_kmeans := Some est\<rparr>
      in case sk_KMeans_fit L (KMeans_n_clusters est) (KMeans_random_state est) X of
           Inl e \<Rightarrow> (Inl e, self1)
         | Inr m \<Rightarrow> (Inr (), self1\<lparr>km_kmeans := Some (est\<lparr>KMeans_fitted := Some m\<rparr>)\<rparr>))"

definition KMeansClustering_fit ::
  "('x, 'm) sklearn_KMeans \<Rightarrow> 'm KMeansClustering \<Rightarrow> 'x \<Rightarrow> (error + unit) \<times> 'm KMeansClustering" where
  "KMeansClustering_fit L self X =
     (case km_n_clusters self of
        None \<Rightarrow>
          (case KElbow_elbow_value L (km_random_state self) (km_max_clusters self) X of
             Inl e \<Rightarrow> (Inl e, self)
           | Inr elbow \<Rightarrow> KMeansClustering_fit_model L (self\<lparr>km_optimal_clusters := elbow\<rparr>) X)
      | Some n \<Rightarrow> KMeansClustering_fit_model L (self\<lparr>km_optimal_clusters := Some n\<rparr>) X)"

text \<open>\<^verbatim>\<open>KMeans.predict\<close> of scikit-learn on an estimator object: it raises
  \<^verbatim>\<open>NotFittedError\<close> on an estimator that was never fitted and changes nothing.\<close>

definition KMeans_predict :: "('x, 'm) sklearn_KMeans \<Rightarrow> 'm KMeans \<Rightarrow> 'x \<Rightarrow> error + int list" where
  "KMeans_predict L est X =
     (case KMeans_fitted est of
        None \<Rightarrow> Inl (NotFittedError ''This KMeans instance is not fitted yet.'')
      | Some m \<Rightarrow> sk_KMeans_predict L m X)"

definition KMeansClustering_predict ::
  "('x, 'm) sklearn_KMeans \<Rightarrow> 'm KMeansClustering \<Rightarrow> 'x \<Rightarrow> (error + int list) \<times> 'm KMeansClustering" where
  "KMeansClustering_predict L self X =
     (case km_kmeans self of
        None \<Rightarrow> (Inl (ValueError not_fitted_message), self)
      | Some est \<Rightarrow> (KMeans_predict L est X, self))"

definition KMeansClustering_fit_predict ::
  "('x, 'm) sklearn_KMeans \<Rightarrow> 'm KMeansClustering \<Rightarrow> 'x \<Rightarrow> (error + int list) \<times> 'm KMeansClustering" where
  "KMeansClustering_fit_predict L self X =
     (case KMeansClustering_fit L self X of
        (Inl e, self1) \<Rightarrow> (Inl e, self1)
      | (Inr u, self1) \<Rightarrow> KMeansClustering_predict L self1 X)"

section \<open>GMMClustering\<close>

text \<open>The methods of scikit-learn's \<^verbatim>\<open>GaussianMixture\<close> that the class calls:
  fitting with \<^verbatim>\<open>n_components\<close> and \<^verbatim>\<open>random_state\<close>, the two information criteria
  of a fitted mixture on the data (finite floats), and prediction.\<close>

record ('x, 'g) sklearn_GaussianMixture =
  sk_GaussianMixture_fit :: "int \<Rightarrow> int \<Rightarrow> 'x \<Rightarrow> error + 'g"
  sk_GaussianMixture_aic :: "'g \<Rightarrow> 'x \<Rightarrow> real"
  sk_GaussianMixture_bic :: "'g \<Rightarrow> 'x \<Rightarrow> real"
  sk_GaussianMixture_predict :: "'g \<Rightarrow> 'x \<Rightarrow> error + int list"

record 'g GaussianMixture =
  GaussianMixture_n_components :: int
  GaussianMixture_random_state :: int
  GaussianMixture_fitted :: "'g option"

record 'g GMMClustering =
  gmm_max_components :: int
  gmm_criterion :: string
  gmm_n_components :: "int option"
  gmm_random_state :: int
  gmm_optimal_components :: "int option"
  gmm_gmm :: "'g GaussianMixture option"

definition GMMClustering_init :: "int \<Rightarrow> string \<Rightarrow> int option \<Rightarrow> int \<Rightarrow> 'g GMMClustering" where
  "GMMClustering_init max_components criterion n_components random_state =
     \<lparr>gmm_max_components = max_components, gmm_criterion = criterion,
      gmm_n_components = n_components, gmm_random_state = random_state,
      gmm_optimal_components = None, gmm_gmm = None\<rparr>"

text \<open>The message \<^verbatim>\<open>El criterio debe ser 'aic' o 'bic'\<close>; \<open>CHR 0x27\<close> is the
  single quote.\<close>

definition criterion_message :: string where
  "criterion_message =
     ''El criterio debe ser '' @ [CHR 0x27] @ ''aic'' @ [CHR 0x27] @ '' o '' @ [CHR 0x27] @ ''bic''
       @ [CHR 0x27]"

text \<open>The loop \<^verbatim>\<open>for n_components in range(1, self.max_components + 1)\<close>: the counts
  still to visit and the list \<^verbatim>\<open>criterions\<close> built so far. The mixture is fitted before
  the criterion name is looked at.\<close>

fun GMMClustering_sweep ::
  "('x, 'g) sklearn_GaussianMixture \<Rightarrow> 'g GMMClustering \<Rightarrow> 'x \<Rightarrow> int list \<Rightarrow> real list
     \<Rightarrow> error + real list" where
  "GMMClustering_sweep L self X [] criterions = Inr criterions"
| "GMMClustering_sweep L self X (n_components # rest) criterions =
     (case sk_GaussianMixture_fit L n_components (gmm_random_state self) X of
        Inl e \<Rightarrow> Inl e
      | Inr gmm \<Rightarrow>
          if gmm_criterion self = ''aic''
          then GMMClustering_sweep L self X rest (criterions @ [sk_GaussianMixture_aic L gmm X])
          else if gmm_criterion self = ''bic''
          then GMMClustering_sweep L self X rest (criterions @ [sk_GaussianMixture_bic L gmm X])
          else Inl (ValueError criterion_message))"

definition GMMClustering_fit_model ::
  "('x, 'g) sklearn_GaussianMixture \<Rightarrow> 'g GMMClustering \<Rightarrow> int \<Rightarrow> 'x
     \<Rightarrow> (error + unit) \<times> 'g GMMClustering" where
  "GMMClustering_fit_model L self optimal X =
     (let self1 = self\<lparr>gmm_optimal_components := Some optimal\<rparr>;
          est = \<lparr>GaussianMixture_n_components = optimal,
                 GaussianMixture_random_state = gmm_random_state self1,
                 GaussianMixture_fitted = None\<rparr>;
          self2 = self1\<lparr>gmm_gmm := Some est\<rparr>
      in case sk_GaussianMixture_fit L optimal (gmm_random_state self1) X of
           Inl e \<Rightarrow> (Inl e, self2)
         | Inr g \<Rightarrow> (Inr (), self2\<lparr>gmm_gmm := Some (est\<lparr>GaussianMixture_fitted := Some g\<rparr>)\<rparr>))"

definition GMMClustering_fit ::
  "('x, 'g) sklearn_GaussianMixture \<Rightarrow> 'g GMMClustering \<Rightarrow> 'x
     \<Rightarrow> (error + unit) \<times> 'g GMMClustering" where
  "GMMClustering_fit L self X =
     (case gmm_n_components self of
        None \<Rightarrow>
          (case GMMClustering_sweep L self X [1 .. gmm_max_components self] [] of
             Inl e \<Rightarrow> (Inl e, self)
           | Inr criterions \<Rightarrow>
               (case np_argmin criterions of
                  Inl e \<Rightarrow> (Inl e, self)
                | Inr i \<Rightarrow> GMMClustering_fit_model L self (i + 1) X))
      | Some n \<Rightarrow> GMMClustering_fit_model L self n X)"

definition GaussianMixture_predict ::
  "('x, 'g) sklearn_GaussianMixture \<Rightarrow> 'g GaussianMixture \<Rightarrow> 'x \<Rightarrow> error + int list" where
  "GaussianMixture_predict L est X =
     (case GaussianMixture_fitted est of
        None \<Rightarrow> Inl (NotFittedError ''This GaussianMixture instance is not fitted yet.'')
      | Some g \<Rightarrow> sk_GaussianMixture_predict L g X)"

definition GMMClustering_predict ::
  "('x, 'g) sklearn_GaussianMixture \<Rightarrow> 'g GMMClustering \<Rightarrow> 'x
     \<Rightarrow> (error + int list) \<times> 'g GMMClustering" where
  "GMMClustering_predict L self X =
     (case gmm_gmm self of
        None \<Rightarrow> (Inl (ValueError not_fitted_message), self)
      | Some est \<Rightarrow> (GaussianMixture_predict L est X, self))"

definition GMMClustering_fit_predict ::
  "('x, 'g) sklearn_GaussianMixture \<Rightarrow> 'g GMMClustering \<Rightarrow> 'x
     \<Rightarrow> (error + int list) \<times> 'g GMMClustering" where
  "GMMClustering_fit_predict L self X =
     (case GMMClustering_fit L self X of
        (Inl e, self1) \<Rightarrow> (Inl e, self1)
      | (Inr u, self1) \<Rightarrow> GMMClustering_predict L self1 X)"

section \<open>AgglomerativeClusteringOptimal\<close>

text \<open>The data is a matrix of finite floats, a list of rows of equal length.
  \<open>sk_Agglomerative_labels k data\<close> is \<^verbatim>\<open>AgglomerativeClustering(n_clusters=k).fit(data).labels_\<close>
  of scikit-learn, or the exception that \<^verbatim>\<open>fit\<close> raises.\<close>

type_synonym matrix = "real list list"

type_synonym sklearn_Agglomerative = "int \<Rightarrow> matrix \<Rightarrow> error + int list"

record AgglomerativeClustering =
  Agglomerative_n_clusters :: int
  Agglomerative_labels :: "int list option"

record AgglomerativeClusteringOptimal =
  agg_max_clusters :: int
  agg_n_clusters :: "int option"
  agg_optimal_clusters :: "int option"
  agg_model :: "AgglomerativeClustering option"

definition AgglomerativeClusteringOptimal_init :: "int \<Rightarrow> int option \<Rightarrow> AgglomerativeClusteringOptimal" where
  "AgglomerativeClusteringOptimal_init max_clusters n_clusters =
     \<lparr>agg_max_clusters = max_clusters, agg_n_clusters = n_clusters,
      agg_optimal_clusters = None, agg_model = None\<rparr>"

text \<open>\<^verbatim>\<open>AgglomerativeClustering.fit\<close> on an estimator object: it stores the labels in the
  object and returns the object itself.\<close>

definition AgglomerativeClustering_fit ::
  "sklearn_Agglomerative \<Rightarrow> AgglomerativeClustering \<Rightarrow> matrix \<Rightarrow> error + AgglomerativeClustering" where
  "AgglomerativeClustering_fit L est X =
     (case L (Agglomerative_n_clusters est) X of
        Inl e \<Rightarrow> Inl e
      | Inr labels \<Rightarrow> Inr (est\<lparr>Agglomerative_labels := Some labels\<rparr>))"

text \<open>numpy on the matrix: \<^verbatim>\<open>data[cluster_labels == i]\<close>, \<^verbatim>\<open>.mean(axis=0)\<close>,
  the broadcast subtraction of a row and the Frobenius norm \<^verbatim>\<open>np.linalg.norm\<close>.\<close>

definition select_rows :: "matrix \<Rightarrow> int list \<Rightarrow> int \<Rightarrow> matrix" where
  "select_rows data cluster_labels i = map fst (filter (\<lambda>(r, l). l = i) (zip data cluster_labels))"

definition ncols :: "matrix \<Rightarrow> nat" where
  "ncols data = (case data of [] \<Rightarrow> 0 | r # _ \<Rightarrow> length r)"

definition mean_axis0 :: "nat \<Rightarrow> matrix \<Rightarrow> real list" where
  "mean_axis0 d rows = map (\<lambda>j. sum_list (map (\<lambda>r. r ! j) rows) / real (length rows)) [0..<d]"

definition sub_broadcast :: "matrix \<Rightarrow> real list \<Rightarrow> matrix" where
  "sub_broadcast rows c = map (\<lambda>r. map2 (-) r c) rows"

definition linalg_norm :: "matrix \<Rightarrow> real" where
  "linalg_norm m = sqrt (sum_list (map (\<lambda>r. sum_list (map (\<lambda>x. x\<^sup>2) r)) m))"

text \<open>The body of the loop of \<^verbatim>\<open>calculate_wcss\<close> for one \<^verbatim>\<open>n_clusters\<close>, given the labels.\<close>

definition wcss_of_labels :: "matrix \<Rightarrow> int \<Rightarrow> int list \<Rightarrow> real" where
  "wcss_of_labels data n_clusters cluster_labels =
     (let centroids = map (\<lambda>i. mean_axis0 (ncols data) (select_rows data cluster_labels (int i)))
                          [0 ..< nat n_clusters]
      in sum_list (map (\<lambda>i. (linalg_norm
                      (sub_broadcast (select_rows data cluster_labels (int i)) (centroids ! i)))\<^sup>2)
                   [0 ..< nat n_clusters]))"

fun calculate_wcss_loop ::
  "sklearn_Agglomerative \<Rightarrow> matrix \<Rightarrow> int list \<Rightarrow> real list \<Rightarrow> error + real list" where
  "calculate_wcss_loop L data [] wcss = Inr wcss"
| "calculate_wcss_loop L data (n_clusters # rest) wcss =
     (case L n_clusters data of
        Inl e \<Rightarrow> Inl e
      | Inr cluster_labels \<Rightarrow>
          calculate_wcss_loop L data rest (wcss @ [wcss_of_labels data n_clusters cluster_labels]))"

definition calculate_wcss ::
  "sklearn_Agglomerative \<Rightarrow> AgglomerativeClusteringOptimal \<Rightarrow> matrix \<Rightarrow> error + real list" where
  "calculate_wcss L self data = calculate_wcss_loop L data [1 .. agg_max_clusters self] []"

definition find_optimal_clusters ::
  "sklearn_Agglomerative \<Rightarrow> AgglomerativeClusteringOptimal \<Rightarrow> matrix \<Rightarrow> error + int" where
  "find_optimal_clusters L self data =
     (case calculate_wcss L self data of
        Inl e \<Rightarrow> Inl e
      | Inr wcss \<Rightarrow>
          (let first_derivative = np_diff wcss;
               second_derivative = np_diff first_derivative
           in case np_argmin second_derivative of
                Inl e \<Rightarrow> Inl e
              | Inr i \<Rightarrow> Inr (i + 2)))"

definition AgglomerativeClusteringOptimal_fit_model ::
  "sklearn_Agglomerative \<Rightarrow> AgglomerativeClusteringOptimal \<Rightarrow> int \<Rightarrow> matrix
     \<Rightarrow> (error + unit) \<times> AgglomerativeClusteringOptimal" where
  "AgglomerativeClusteringOptimal_fit_model L self optimal X =
     (let self1 = self\<lparr>agg_optimal_clusters := Some optimal\<rparr>;
          est = \<lparr>Agglomerative_n_clusters = optimal, Agglomerative_labels = None\<rparr>;
          self2 = self1\<lparr>agg_model := Some est\<rparr>
      in case AgglomerativeClustering_fit L est X of
           Inl e \<Rightarrow> (Inl e, self2)
         | Inr est1 \<Rightarrow> (Inr (), self2\<lparr>agg_model := Some est1\<rparr>))"

definition AgglomerativeClusteringOptimal_fit ::
  "sklearn_Agglomerative \<Rightarrow> AgglomerativeClusteringOptimal \<Rightarrow> matrix
     \<Rightarrow> (error + unit) \<times> AgglomerativeClusteringOptimal" where
  "AgglomerativeClusteringOptimal_fit L self X =
     (case agg_n_clusters self of
        None \<Rightarrow>
          (case find_optimal_clusters L self X of
             Inl e \<Rightarrow> (Inl e, self)
           | Inr k \<Rightarrow> AgglomerativeClusteringOptimal_fit_model L self k X)
      | Some n \<Rightarrow> AgglomerativeClusteringOptimal_fit_model L self n X)"

text \<open>What a method of this class returns: an array of labels, or an estimator object.
  \<^verbatim>\<open>predict\<close> returns \<^verbatim>\<open>self.model.fit(X)\<close>, the stored estimator after it has been
  fitted again on \<open>X\<close>; \<^verbatim>\<open>fit_predict\<close> reads \<^verbatim>\<open>.labels_\<close> of that object.\<close>

datatype agg_value = LabelArray "int list" | EstimatorObject AgglomerativeClustering

definition AgglomerativeClusteringOptimal_predict ::
  "sklearn_Agglomerative \<Rightarrow> AgglomerativeClusteringOptimal \<Rightarrow> matrix
     \<Rightarrow> (error + agg_value) \<times> AgglomerativeClusteringOptimal" where
  "AgglomerativeClusteringOptimal_predict L self X =
     (case agg_model self of
        None \<Rightarrow> (Inl (ValueError not_fitted_message), self)
      | Some est \<Rightarrow>
          (case AgglomerativeClustering_fit L est X of
             Inl e \<Rightarrow> (Inl e, self)
           | Inr est1 \<Rightarrow> (Inr (EstimatorObject est1), self\<lparr>agg_model := Some est1\<rparr>)))"

definition AgglomerativeClusteringOptimal_fit_predict ::
  "sklearn_Agglomerative \<Rightarrow> AgglomerativeClusteringOptimal \<Rightarrow> matrix
     \<Rightarrow> (error + agg_value) \<times> AgglomerativeClusteringOptimal" where
  "AgglomerativeClusteringOptimal_fit_predict L self X =
     (case AgglomerativeClusteringOptimal_fit L self X of
        (Inl e, self1) \<Rightarrow> (Inl e, self1)
      | (Inr u, self1) \<Rightarrow>
          (case AgglomerativeClusteringOptimal_predict L self1 X of
             (Inl e, self2) \<Rightarrow> (Inl e, self2)
           | (Inr (LabelArray a), self2) \<Rightarrow>
               (Inl (AttributeError ''numpy.ndarray object has no attribute labels_''), self2)
           | (Inr (EstimatorObject est), self2) \<Rightarrow>
               (case Agglomerative_labels est of
                  None \<Rightarrow> (Inl (AttributeError
                             ''AgglomerativeClustering object has no attribute labels_''), self2)
                | Some labels \<Rightarrow> (Inr (LabelArray labels), self2))))"

section \<open>Stand-ins for the libraries\<close>

text \<open>Concrete library functions at which the theorems below are instantiated.
  \<^verbatim>\<open>AgglomerativeClustering(n_clusters=1)\<close> puts every sample in cluster 0 and needs
  at least two samples.\<close>

definition single_cluster :: sklearn_Agglomerative where
  "single_cluster k X =
     (if k = 1 \<and> 2 \<le> length X then Inr (map (\<lambda>r. 0) X)
      else Inl (ValueError ''unsupported''))"

text \<open>A mixture library on matrices whose fitted model is its component count, with
  an AIC that is least at two components and a BIC that is least at one.\<close>

definition toy_mixture :: "(matrix, int) sklearn_GaussianMixture" where
  "toy_mixture =
     \<lparr>sk_GaussianMixture_fit =
        (\<lambda>n seed X. if 1 \<le> n then Inr n else Inl (ValueError ''n_components'')),
      sk_GaussianMixture_aic = (\<lambda>g X. (real_of_int g - 2)\<^sup>2),
      sk_GaussianMixture_bic = (\<lambda>g X. real_of_int g),
      sk_GaussianMixture_predict = (\<lambda>g X. Inr (map (\<lambda>r. 0) X))\<rparr>"

text \<open>The hierarchical partitions of the three points 0, 1 and 10 into one, two and three
  clusters (the names of the labels play no role in the sums of squares).\<close>

definition three_points :: sklearn_Agglomerative where
  "three_points k X =
     (if X = [[0], [1], [10]] \<and> k = 1 then Inr [0, 0, 0]
      else if X = [[0], [1], [10]] \<and> k = 2 then Inr [0, 0, 1]
      else if X = [[0], [1], [10]] \<and> k = 3 then Inr [0, 1, 2]
      else Inl (ValueError ''unsupported''))"

section \<open>The selection rules in the words of the specification\<close>

text \<open>The squared Euclidean distance of a row to a centroid, the within-cluster sum of
  squared distances of the rows to the centroid of their cluster, and the discrete second
  derivative of a curve at index \<open>j\<close>. The theorems below compare the code with them.\<close>

definition sq_dist :: "real list \<Rightarrow> real list \<Rightarrow> real" where
  "sq_dist r c = sum_list (map (\<lambda>(x, y). (x - y)\<^sup>2) (zip r c))"

definition within_cluster_sum_of_squares :: "matrix \<Rightarrow> int \<Rightarrow> int list \<Rightarrow> real" where
  "within_cluster_sum_of_squares data k labels =
     sum_list (map (\<lambda>i.
        sum_list (map (\<lambda>r. sq_dist r (mean_axis0 (ncols data) (select_rows data labels (int i))))
                      (select_rows data labels (int i))))
       [0 ..< nat k])"


section \<open>pandas: floats, frames and the operations the pipeline uses\<close>

text \<open>A float64 cell: a finite value, NaN, or an infinity (\<open>Inf True\<close> is \<open>+inf\<close>).
  Subtraction, addition and division follow IEEE 754 on these classes (the sign of a zero
  is not modelled: a zero divisor counts as \<open>+0\<close>).\<close>

datatype pyfloat = Fin real | NaN | Inf bool

fun fsub :: "pyfloat \<Rightarrow> pyfloat \<Rightarrow> pyfloat" where
  "fsub (Fin a) (Fin b) = Fin (a - b)"
| "fsub NaN y = NaN"
| "fsub x NaN = NaN"
| "fsub (Inf s) (Inf t) = (if s = t then NaN else Inf s)"
| "fsub (Inf s) (Fin b) = Inf s"
| "fsub (Fin a) (Inf t) = Inf (\<not> t)"

fun fadd :: "pyfloat \<Rightarrow> pyfloat \<Rightarrow> pyfloat" where
  "fadd (Fin a) (Fin b) = Fin (a + b)"
| "fadd NaN y = NaN"
| "fadd x NaN = NaN"
| "fadd (Inf s) (Inf t) = (if s = t then Inf s else NaN)"
| "fadd (Inf s) (Fin b) = Inf s"
| "fadd (Fin a) (Inf t) = Inf t"

fun fdiv :: "pyfloat \<Rightarrow> pyfloat \<Rightarrow> pyfloat" where
  "fdiv (Fin a) (Fin b) =
     (if b = 0 then (if a = 0 then NaN else Inf (0 < a)) else Fin (a / b))"
| "fdiv NaN y = NaN"
| "fdiv x NaN = NaN"
| "fdiv (Inf s) (Inf t) = NaN"
| "fdiv (Inf s) (Fin b) = Inf (s = (0 \<le> b))"
| "fdiv (Fin a) (Inf t) = Fin 0"

fun fless :: "pyfloat \<Rightarrow> pyfloat \<Rightarrow> bool" where
  "fless (Fin a) (Fin b) = (a < b)"
| "fless (Inf s) (Inf t) = (\<not> s \<and> t)"
| "fless (Inf s) (Fin b) = (\<not> s)"
| "fless (Fin a) (Inf t) = t"
| "fless NaN y = False"
| "fless x NaN = False"

text \<open>The reductions of pandas with the default \<^verbatim>\<open>skipna=True\<close>: NaN entries are left
  out, and the result is NaN when nothing is left.\<close>

definition pd_min :: "pyfloat list \<Rightarrow> pyfloat" where
  "pd_min vals =
     (case filter (\<lambda>v. v \<noteq> NaN) vals of
        [] \<Rightarrow> NaN
      | x # xs \<Rightarrow> foldl (\<lambda>m y. if fless y m then y else m) x xs)"

definition pd_max :: "pyfloat list \<Rightarrow> pyfloat" where
  "pd_max vals =
     (case filter (\<lambda>v. v \<noteq> NaN) vals of
        [] \<Rightarrow> NaN
      | x # xs \<Rightarrow> foldl (\<lambda>m y. if fless m y then y else m) x xs)"

definition pd_mean :: "pyfloat list \<Rightarrow> pyfloat" where
  "pd_mean vals =
     (case filter (\<lambda>v. v \<noteq> NaN) vals of
        [] \<Rightarrow> NaN
      | x # xs \<Rightarrow> fdiv (foldl fadd x xs) (Fin (real (length (x # xs)))))"

text \<open>A DataFrame of floats: the row labels and the columns in order, each with its label.
  Column labels can repeat (\<^verbatim>\<open>df.columns = names\<close> accepts duplicates).\<close>

record 'i frame =
  index :: "'i list"
  columns :: "(string \<times> pyfloat list) list"

text \<open>A Series of floats indexed by labels, as \<^verbatim>\<open>df.min()\<close> returns it.\<close>

type_synonym series = "(string \<times> pyfloat) list"

definition frame_min :: "'i frame \<Rightarrow> series" where
  "frame_min df = map (\<lambda>(c, vals). (c, pd_min vals)) (columns df)"

definition frame_max :: "'i frame \<Rightarrow> series" where
  "frame_max df = map (\<lambda>(c, vals). (c, pd_max vals)) (columns df)"

text \<open>Arithmetic aligns on labels: a label missing on one side gives NaN.\<close>

definition series_get :: "series \<Rightarrow> string \<Rightarrow> pyfloat" where
  "series_get s c = (case map_of s c of None \<Rightarrow> NaN | Some v \<Rightarrow> v)"

definition series_sub :: "series \<Rightarrow> series \<Rightarrow> series" where
  "series_sub a b = map (\<lambda>(c, v). (c, fsub v (series_get b c))) a"

definition frame_sub_series :: "'i frame \<Rightarrow> series \<Rightarrow> 'i frame" where
  "frame_sub_series df s =
     df\<lparr>columns := map (\<lambda>(c, vals). (c, map (\<lambda>v. fsub v (series_get s c)) vals)) (columns df)\<rparr>"

definition frame_div_series :: "'i frame \<Rightarrow> series \<Rightarrow> 'i frame" where
  "frame_div_series df s =
     df\<lparr>columns := map (\<lambda>(c, vals). (c, map (\<lambda>v. fdiv v (series_get s c)) vals)) (columns df)\<rparr>"

text \<open>\<^verbatim>\<open>pd.concat(frames, axis=1)\<close> of one-column frames \<^verbatim>\<open>[['Close']]\<close>, each given as
  its rows (timestamp, close) with distinct timestamps: the outer join on the sorted
  union of the timestamps, NaN where a frame has no row. An empty list raises.\<close>

definition pd_concat_axis1 :: "(nat \<times> real) list list \<Rightarrow> error + nat frame" where
  "pd_concat_axis1 dfs =
     (case dfs of
        [] \<Rightarrow> Inl (ValueError ''No objects to concatenate'')
      | d # ds \<Rightarrow>
          (let idx = sort (remdups (concat (map (map fst) dfs)))
           in Inr \<lparr>index = idx,
                   columns = map (\<lambda>rows. (''Close'',
                                map (\<lambda>t. case map_of rows t of None \<Rightarrow> NaN | Some v \<Rightarrow> Fin v) idx))
                              dfs\<rparr>))"

text \<open>\<^verbatim>\<open>df.columns = names\<close> and \<^verbatim>\<open>df.dropna()\<close> (rows with any NaN are removed).\<close>

definition set_columns :: "'i frame \<Rightarrow> string list \<Rightarrow> error + 'i frame" where
  "set_columns df names =
     (if length names = length (columns df)
      then Inr (df\<lparr>columns := zip names (map snd (columns df))\<rparr>)
      else Inl (ValueError ''Length mismatch''))"

definition dropna :: "'i frame \<Rightarrow> 'i frame" where
  "dropna df =
     (let keep = filter (\<lambda>i. list_all (\<lambda>(c, vals). vals ! i \<noteq> NaN) (columns df))
                        [0 ..< length (index df)]
      in \<lparr>index = map (\<lambda>i. index df ! i) keep,
          columns = map (\<lambda>(c, vals). (c, map (\<lambda>i. vals ! i) keep)) (columns df)\<rparr>)"

text \<open>A frame is well formed when every column has one entry for every row label.\<close>

definition well_formed :: "'i frame \<Rightarrow> bool" where
  "well_formed df = list_all (\<lambda>(c, vals). length vals = length (index df)) (columns df)"

section \<open>EfficiencyRatioAnalysis\<close>

text \<open>The collaborators outside the repository. \<open>MT5_close symbol start_date end_date
  time_frame\<close> is \<^verbatim>\<open>load_from_MT5\<close> followed by \<^verbatim>\<open>get_data()[['Close']]\<close>: the rows
  (timestamp, close) of the instrument, or the \<^verbatim>\<open>ValueError\<close> of the loader.
  \<open>er_mean v length\<close> is the entry of \<^verbatim>\<open>df_er.mean().round(5)\<close> for a column holding
  \<^verbatim>\<open>ta.er(v, length=length)\<close>: the rounded mean of the efficiency ratio of the close
  prices \<open>v\<close>, NaN when the ratio is defined nowhere.\<close>

type_synonym MT5_loader = "string \<Rightarrow> string \<Rightarrow> string \<Rightarrow> string \<Rightarrow> error + (nat \<times> real) list"

type_synonym er_statistic = "pyfloat list \<Rightarrow> int \<Rightarrow> pyfloat"

text \<open>Python's \<^verbatim>\<open>f'{length}'\<close> of an integer.\<close>

function str_nat :: "nat \<Rightarrow> string" where
  "str_nat n =
     (if n < 10 then [''0123456789'' ! n]
      else str_nat (n div 10) @ [''0123456789'' ! (n mod 10)])"
  by pat_completeness auto
termination
  by (relation "measure id") auto

declare str_nat.simps [simp del]

definition str_int :: "int \<Rightarrow> string" where
  "str_int i = (if i < 0 then CHR ''-'' # str_nat (nat (- i)) else str_nat (nat i))"

text \<open>The loop of \<^verbatim>\<open>load_data\<close> over \<^verbatim>\<open>self.tickers\<close>, with the list built so far.\<close>

fun load_data_loop ::
  "MT5_loader \<Rightarrow> string \<Rightarrow> string \<Rightarrow> string \<Rightarrow> string list \<Rightarrow> (nat \<times> real) list list
     \<Rightarrow> error + (nat \<times> real) list list" where
  "load_data_loop MT5 start_date end_date time_frame [] df_tickers = Inr df_tickers"
| "load_data_loop MT5 start_date end_date time_frame (symbol # rest) df_tickers =
     (case MT5 symbol start_date end_date time_frame of
        Inl e \<Rightarrow> Inl e
      | Inr close \<Rightarrow>
          load_data_loop MT5 start_date end_date time_frame rest (df_tickers @ [close]))"

definition load_data ::
  "MT5_loader \<Rightarrow> string list \<Rightarrow> string \<Rightarrow> string \<Rightarrow> string \<Rightarrow> error + nat frame" where
  "load_data MT5 tickers start_date end_date time_frame =
     (case load_data_loop MT5 start_date end_date time_frame tickers [] of
        Inl e \<Rightarrow> Inl e
      | Inr closes \<Rightarrow>
          (case pd_concat_axis1 closes of
             Inl e \<Rightarrow> Inl e
           | Inr df_tickers \<Rightarrow>
               (case set_columns df_tickers tickers of
                  Inl e \<Rightarrow> Inl e
                | Inr df_tickers1 \<Rightarrow> Inr (dropna df_tickers1))))"

text \<open>The inner loop of \<^verbatim>\<open>calculate_er\<close> for one \<^verbatim>\<open>length\<close>, followed by
  \<^verbatim>\<open>value.mean().round(5)\<close>: the Series of the column means, indexed by the column
  labels of \<^verbatim>\<open>df_er\<close>. \<^verbatim>\<open>df_er[k] = \<dots>\<close> replaces a column that is already there and
  appends a new one otherwise.\<close>

definition er_column_means :: "er_statistic \<Rightarrow> nat frame \<Rightarrow> int \<Rightarrow> series" where
  "er_column_means er_mean df_tickers length' =
     foldl (\<lambda>df_er (k, v). AList.update k (er_mean v length') df_er) [] (columns df_tickers)"

text \<open>\<^verbatim>\<open>pd.concat(er_mean, axis=1)\<close> of the one-column frames \<^verbatim>\<open>period_<key>\<close>. They
  all have the index of the first one (the column labels of \<^verbatim>\<open>df_tickers\<close> without
  repetition), which is the index of the result; it raises on an empty list.\<close>

definition pd_concat_columns :: "(string \<times> series) list \<Rightarrow> error + string frame" where
  "pd_concat_columns er_mean =
     (case er_mean of
        [] \<Rightarrow> Inl (ValueError ''No objects to concatenate'')
      | (c, s) # rest \<Rightarrow>
          Inr \<lparr>index = map fst s,
               columns = map (\<lambda>(c, s1). (c, map (\<lambda>k. series_get s1 k) (map fst s))) er_mean\<rparr>)"

definition calculate_er :: "er_statistic \<Rightarrow> nat frame \<Rightarrow> int \<Rightarrow> int \<Rightarrow> error + string frame" where
  "calculate_er er_mean df_tickers init_period end_period =
     (let er_join = map (\<lambda>length'. (str_int length', er_column_means er_mean df_tickers length'))
                        [init_period .. end_period - 1];
          er_mean_frames = map (\<lambda>(key, value). (''period_'' @ key, value)) er_join
      in pd_concat_columns er_mean_frames)"

text \<open>From the assignment of the labels on, \<^verbatim>\<open>self.df_er\<close> holds columns of floats,
  of integers and, after \<^verbatim>\<open>reset_index\<close>, of strings.\<close>

datatype cell = F pyfloat | I int | S string

record dataframe =
  df_index :: "cell list"
  df_columns :: "(string \<times> cell list) list"

definition to_dataframe :: "string frame \<Rightarrow> dataframe" where
  "to_dataframe df =
     \<lparr>df_index = map S (index df),
      df_columns = map (\<lambda>(c, vals). (c, map F vals)) (columns df)\<rparr>"

text \<open>\<^verbatim>\<open>df[name] = values\<close>: the length of the values must be the number of rows.\<close>

definition set_item :: "dataframe \<Rightarrow> string \<Rightarrow> cell list \<Rightarrow> error + dataframe" where
  "set_item df name vals =
     (if length vals = length (df_index df)
      then Inr (df\<lparr>df_columns := AList.update name vals (df_columns df)\<rparr>)
      else Inl (ValueError ''Length of values does not match length of index''))"

text \<open>\<^verbatim>\<open>df.iloc[:, :-1]\<close>: all columns but the last one.\<close>

definition iloc_all_but_last :: "dataframe \<Rightarrow> dataframe" where
  "iloc_all_but_last df = df\<lparr>df_columns := butlast (df_columns df)\<rparr>"

text \<open>\<^verbatim>\<open>df.mean(axis=1)\<close>: the mean of every row over the columns, NaN left out;
  a column of strings raises \<^verbatim>\<open>TypeError\<close>.\<close>

fun cell_float :: "cell \<Rightarrow> pyfloat option" where
  "cell_float (F x) = Some x"
| "cell_float (I n) = Some (Fin (real_of_int n))"
| "cell_float (S s) = None"

definition mean_axis1 :: "dataframe \<Rightarrow> error + cell list" where
  "mean_axis1 df =
     (if list_all (\<lambda>(c, vals). list_all (\<lambda>v. cell_float v \<noteq> None) vals) (df_columns df)
      then Inr (map (\<lambda>i. F (pd_mean (map (\<lambda>(c, vals). the (cell_float (vals ! i))) (df_columns df))))
                    [0 ..< length (df_index df)])
      else Inl (TypeError ''could not convert string to float''))"

text \<open>\<^verbatim>\<open>df.reset_index(inplace=True)\<close> followed by \<^verbatim>\<open>df.columns.values[0] = 'symbol'\<close>:
  the index becomes the first column, which is then labelled \<^verbatim>\<open>symbol\<close>, and the rows
  are numbered.\<close>

definition reset_index_symbol :: "dataframe \<Rightarrow> dataframe" where
  "reset_index_symbol df =
     \<lparr>df_index = map (\<lambda>i. I (int i)) [0 ..< length (df_index df)],
      df_columns = (''symbol'', df_index df) # df_columns df\<rparr>"

text \<open>\<^verbatim>\<open>df[[c1, c2, c3]]\<close>: the columns with these labels, in this order; a label that
  is missing raises \<^verbatim>\<open>KeyError\<close>.\<close>

fun select_columns :: "dataframe \<Rightarrow> string list \<Rightarrow> (string \<times> cell list) list
    \<Rightarrow> error + dataframe" where
  "select_columns df [] acc = Inr (df\<lparr>df_columns := acc\<rparr>)"
| "select_columns df (c # cs) acc =
     (case filter (\<lambda>(c1, vals). c1 = c) (df_columns df) of
        [] \<Rightarrow> Inl (KeyError c)
      | found \<Rightarrow> select_columns df cs (acc @ found))"

text \<open>\<^verbatim>\<open>tickers_clusters_er\<close> on the frame \<^verbatim>\<open>self.df_er\<close>: the outcome is the returned
  three-column frame together with \<^verbatim>\<open>self.df_er\<close> as the method leaves it.
  \<^verbatim>\<open>KMeansClustering(n_clusters=self.n_clusters)\<close> takes the defaults
  \<^verbatim>\<open>max_clusters=10\<close> and \<^verbatim>\<open>random_state=42\<close>.\<close>

definition min_max_normalize :: "string frame \<Rightarrow> string frame" where
  "min_max_normalize df_er =
     frame_div_series (frame_sub_series df_er (frame_min df_er))
                      (series_sub (frame_max df_er) (frame_min df_er))"

definition tickers_clusters_er ::
  "(string frame, 'm) sklearn_KMeans \<Rightarrow> int \<Rightarrow> string frame \<Rightarrow> error + dataframe \<times> dataframe" where
  "tickers_clusters_er L n_clusters df_er =
     (let df_er_norm = min_max_normalize df_er;
          kmeans = KMeansClustering_init 10 42 (Some n_clusters)
      in case fst (KMeansClustering_fit_predict L kmeans df_er_norm) of
           Inl e \<Rightarrow> Inl e
         | Inr cluster_labels \<Rightarrow>
             (case set_item (to_dataframe df_er) ''cluster_label'' (map I cluster_labels) of
                Inl e \<Rightarrow> Inl e
              | Inr df1 \<Rightarrow>
                  (case mean_axis1 (iloc_all_but_last df1) of
                     Inl e \<Rightarrow> Inl e
                   | Inr mean_er \<Rightarrow>
                       (case set_item df1 ''mean_er'' mean_er of
                          Inl e \<Rightarrow> Inl e
                        | Inr df2 \<Rightarrow>
                            (let df3 = reset_index_symbol df2
                             in case select_columns df3 [''symbol'', ''mean_er'', ''cluster_label''] [] of
                                  Inl e \<Rightarrow> Inl e
                                | Inr result \<Rightarrow> Inr (result, df3))))))"

record EfficiencyRatioAnalysis =
  era_tickers :: "string list"
  era_start_date :: string
  era_end_date :: string
  era_time_frame :: string
  era_init_period :: int
  era_end_period :: int
  era_n_clusters :: int
  era_df_tickers :: "nat frame"
  era_df_er :: dataframe
  era_clusters_er :: dataframe

text \<open>The constructor: it stores its arguments unchanged and runs the three steps in
  order; an exception in a step leaves no object.\<close>

definition EfficiencyRatioAnalysis_init ::
  "MT5_loader \<Rightarrow> er_statistic \<Rightarrow> (string frame, 'm) sklearn_KMeans \<Rightarrow>
   string list \<Rightarrow> string \<Rightarrow> string \<Rightarrow> string \<Rightarrow> int \<Rightarrow> int \<Rightarrow> int
     \<Rightarrow> error + EfficiencyRatioAnalysis" where
  "EfficiencyRatioAnalysis_init MT5 er_mean L tickers start_date end_date time_frame
       init_period end_period n_clusters =
     (case load_data MT5 tickers start_date end_date time_frame of
        Inl e \<Rightarrow> Inl e
      | Inr df_tickers \<Rightarrow>
          (case calculate_er er_mean df_tickers init_period end_period of
             Inl e \<Rightarrow> Inl e
           | Inr df_er \<Rightarrow>
               (case tickers_clusters_er L n_clusters df_er of
                  Inl e \<Rightarrow> Inl e
                | Inr (clusters_er, df_er1) \<Rightarrow>
                    Inr \<lparr>era_tickers = tickers, era_start_date = start_date,
                         era_end_date = end_date, era_time_frame = time_frame,
                         era_init_period = init_period, era_end_period = end_period,
                         era_n_clusters = n_clusters, era_df_tickers = df_tickers,
                         era_df_er = df_er1, era_clusters_er = clusters_er\<rparr>)))"

subsection \<open>Stand-ins for the collaborators of the pipeline\<close>

text \<open>A loader that knows two
  instruments, \<open>A\<close> with three bars and \<open>B\<close> with six; a statistic that is defined
  when the window is shorter than the series; and a \<^verbatim>\<open>KMeans\<close> that validates its
  input as scikit-learn does (the cluster count first, then NaN, then the number of
  samples) and whose fitted model is the cluster count.\<close>

definition toy_MT5 :: MT5_loader where
  "toy_MT5 symbol start_date end_date time_frame =
     (if symbol = ''A'' then Inr [(0, 1), (1, 2), (2, 4)]
      else if symbol = ''B'' then Inr [(0, 5), (1, 6), (2, 6), (3, 7), (4, 9), (5, 8)]
      else Inl (ValueError ''Failed to load data from Metatrader''))"

definition toy_er :: er_statistic where
  "toy_er v length' =
     (case v of
        Fin a # rest \<Rightarrow>
          (if 0 < length' \<and> length' < int (length v)
           then Fin (a / (a + real_of_int length')) else NaN)
      | _ \<Rightarrow> NaN)"

definition has_nan :: "'i frame \<Rightarrow> bool" where
  "has_nan X = list_ex (\<lambda>(c, vals). list_ex (\<lambda>v. v = NaN) vals) (columns X)"

definition toy_KMeans :: "(string frame, nat) sklearn_KMeans" where
  "toy_KMeans =
     \<lparr>sk_KMeans_fit =
        (\<lambda>n_clusters seed X.
           case n_clusters of
             None \<Rightarrow> Inl (ValueError ''n_clusters must be an int'')
           | Some k \<Rightarrow>
               if k < 1 then Inl (ValueError ''n_clusters must be an int in the range [1, inf)'')
               else if has_nan X then Inl (ValueError ''Input X contains NaN.'')
               else if int (length (index X)) < k
               then Inl (ValueError ''n_samples should be >= n_clusters'')
               else Inr (nat k)),
      sk_KMeans_predict =
        (\<lambda>m X. Inr (map (\<lambda>i. int (i mod m)) [0 ..< length (index X)])),
      KElbow_elbow_value = (\<lambda>seed max_clusters X. Inr None)\<rparr>"

text \<open>The object that the constructor builds from the two instruments with the single
  lookback length 2 and two clusters.\<close>

definition toy_analysis :: EfficiencyRatioAnalysis where
  "toy_analysis =
     \<lparr>era_tickers = [''A'', ''B''], era_start_date = ''2015-01-01'',
      era_end_date = ''2015-02-01'', era_time_frame = ''1h'',
      era_init_period = 2, era_end_period = 3, era_n_clusters = 2,
      era_df_tickers = \<lparr>index = [0, 1, 2],
        columns = [(''A'', [Fin 1, Fin 2, Fin 4]), (''B'', [Fin 5, Fin 6, Fin 6])]\<rparr>,
      era_df_er = \<lparr>df_index = [I 0, I 1],
        df_columns = [(''symbol'', [S ''A'', S ''B'']),
                      (''period_2'', [F (Fin (1 / 3)), F (Fin (5 / 7))]),
                      (''cluster_label'', [I 0, I 1]),
                      (''mean_er'', [F (Fin (1 / 3)), F (Fin (5 / 7))])]\<rparr>,
      era_clusters_er = \<lparr>df_index = [I 0, I 1],
        df_columns = [(''symbol'', [S ''A'', S ''B'']),
                      (''mean_er'', [F (Fin (1 / 3)), F (Fin (5 / 7))]),
                      (''cluster_label'', [I 0, I 1])]\<rparr>\<rparr>"

section \<open>The strategies: fit, predict and fit_predict\<close>

lemma KMeansClustering_fit_then_predict:
  "KMeansClustering_fit L self X = (Inr u, self1) \<Longrightarrow>
   KMeansClustering_fit_predict L self X = KMeansClustering_predict L self1 X"
  by (simp add: KMeansClustering_fit_predict_def)

lemma GMMClustering_fit_then_predict:
  "GMMClustering_fit L self X = (Inr u, self1) \<Longrightarrow>
   GMMClustering_fit_predict L self X = GMMClustering_predict L self1 X"
  by (simp add: GMMClustering_fit_predict_def)

lemma Agglomerative_predict_never_labels:
  "fst (AgglomerativeClusteringOptimal_predict L self X) \<noteq> Inr (LabelArray labels)"
  by (simp add: AgglomerativeClusteringOptimal_predict_def split: option.splits sum.splits)

lemma Agglomerative_fit_predict_labels:
  "AgglomerativeClusteringOptimal_fit_predict L self X = (Inr v, self1) \<Longrightarrow>
   \<exists>labels. v = LabelArray labels"
  by (auto simp add: AgglomerativeClusteringOptimal_fit_predict_def
      split: option.splits sum.splits prod.splits agg_value.splits)

text \<open>
  C1. The round trip of \<^verbatim>\<open>fit_predict\<close> against \<^verbatim>\<open>fit\<close> followed by \<^verbatim>\<open>predict\<close>
  fails for the hierarchical variant. With a fixed cluster count 1 and the two samples
  \<open>[[0], [1]]\<close>, \<^verbatim>\<open>fit_predict\<close> returns the label array \<open>[0, 0]\<close>, while
  \<^verbatim>\<open>predict\<close> after \<^verbatim>\<open>fit\<close> on the same input returns the estimator object and no
  label array. (For the centroid and mixture variants the round trip holds, see
  \<open>KMeansClustering_fit_then_predict\<close> and \<open>GMMClustering_fit_then_predict\<close>.)
\<close>

theorem Agglomerative_predict_returns_estimator:
  "AgglomerativeClusteringOptimal_fit_predict single_cluster
       (AgglomerativeClusteringOptimal_init 10 (Some 1)) [[0], [1]]
     = (Inr (LabelArray [0, 0]),
        \<lparr>agg_max_clusters = 10, agg_n_clusters = Some 1, agg_optimal_clusters = Some 1,
         agg_model = Some \<lparr>Agglomerative_n_clusters = 1, Agglomerative_labels = Some [0, 0]\<rparr>\<rparr>)
   \<and> AgglomerativeClusteringOptimal_predict single_cluster
       (snd (AgglomerativeClusteringOptimal_fit single_cluster
          (AgglomerativeClusteringOptimal_init 10 (Some 1)) [[0], [1]])) [[0], [1]]
     = (Inr (EstimatorObject \<lparr>Agglomerative_n_clusters = 1, Agglomerative_labels = Some [0, 0]\<rparr>),
        \<lparr>agg_max_clusters = 10, agg_n_clusters = Some 1, agg_optimal_clusters = Some 1,
         agg_model = Some \<lparr>Agglomerative_n_clusters = 1, Agglomerative_labels = Some [0, 0]\<rparr>\<rparr>)"
  by (simp add: AgglomerativeClusteringOptimal_fit_predict_def
      AgglomerativeClusteringOptimal_predict_def AgglomerativeClusteringOptimal_fit_def
      AgglomerativeClusteringOptimal_fit_model_def AgglomerativeClusteringOptimal_init_def
      AgglomerativeClustering_fit_def single_cluster_def)

text \<open>
  C6. On a strategy object as the constructor leaves it (\<^verbatim>\<open>fit\<close> never called),
  \<^verbatim>\<open>predict\<close> of each of the three variants raises \<^verbatim>\<open>ValueError\<close> with a message that
  names the call \<^verbatim>\<open>fit(X)\<close>, whatever the library and the data are; the object after
  the call is the object before it, so nothing was fitted.
\<close>

theorem predict_before_fit_raises:
  "KMeansClustering_predict Lk (KMeansClustering_init mk rk nk) Xk
       = (Inl (ValueError not_fitted_message), KMeansClustering_init mk rk nk)
   \<and> GMMClustering_predict Lg (GMMClustering_init mg cg ng rg) Xg
       = (Inl (ValueError not_fitted_message), GMMClustering_init mg cg ng rg)
   \<and> AgglomerativeClusteringOptimal_predict La (AgglomerativeClusteringOptimal_init ma na) Xa
       = (Inl (ValueError not_fitted_message), AgglomerativeClusteringOptimal_init ma na)
   \<and> not_fitted_message
       = ''El modelo debe ser ajustado antes de hacer predicciones. Llama a ''
           @ ''fit(X)'' @ '' primero.''"
  by (simp add: KMeansClustering_predict_def KMeansClustering_init_def
      GMMClustering_predict_def GMMClustering_init_def
      AgglomerativeClusteringOptimal_predict_def AgglomerativeClusteringOptimal_init_def
      not_fitted_message_def)

text \<open>
  C10. \<^verbatim>\<open>predict\<close> of the centroid and of the mixture variant returns the object
  unchanged, in every field, and a second \<^verbatim>\<open>predict\<close> on the same data returns the same
  outcome. \<^verbatim>\<open>predict\<close> of the hierarchical variant fits the stored estimator again on
  its argument: after a successful call the stored estimator holds the labels of the
  argument.
\<close>

theorem predict_frame:
  "snd (KMeansClustering_predict Lk sk Xk) = sk
   \<and> fst (KMeansClustering_predict Lk (snd (KMeansClustering_predict Lk sk Xk)) Xk)
       = fst (KMeansClustering_predict Lk sk Xk)
   \<and> snd (GMMClustering_predict Lg sg Xg) = sg
   \<and> fst (GMMClustering_predict Lg (snd (GMMClustering_predict Lg sg Xg)) Xg)
       = fst (GMMClustering_predict Lg sg Xg)
   \<and> (agg_model sa = Some est \<and> La (Agglomerative_n_clusters est) Xa = Inr labels
       \<longrightarrow> snd (AgglomerativeClusteringOptimal_predict La sa Xa)
            = sa\<lparr>agg_model := Some (est\<lparr>Agglomerative_labels := Some labels\<rparr>)\<rparr>)"
  by (simp add: KMeansClustering_predict_def GMMClustering_predict_def
      AgglomerativeClusteringOptimal_predict_def AgglomerativeClustering_fit_def
      split: option.splits)

theorem predict_frame_witness:
  "agg_model \<lparr>agg_max_clusters = 10, agg_n_clusters = Some 1, agg_optimal_clusters = Some 1,
      agg_model = Some \<lparr>Agglomerative_n_clusters = 1, Agglomerative_labels = Some [0, 0]\<rparr>\<rparr>
     = Some \<lparr>Agglomerative_n_clusters = 1, Agglomerative_labels = Some [0, 0]\<rparr>
   \<and> single_cluster 1 [[0], [1], [2]] = Inr [0, 0, 0]
   \<and> snd (AgglomerativeClusteringOptimal_predict single_cluster
        \<lparr>agg_max_clusters = 10, agg_n_clusters = Some 1, agg_optimal_clusters = Some 1,
         agg_model = Some \<lparr>Agglomerative_n_clusters = 1, Agglomerative_labels = Some [0, 0]\<rparr>\<rparr>
        [[0], [1], [2]])
     = \<lparr>agg_max_clusters = 10, agg_n_clusters = Some 1, agg_optimal_clusters = Some 1,
        agg_model = Some \<lparr>Agglomerative_n_clusters = 1, Agglomerative_labels = Some [0, 0, 0]\<rparr>\<rparr>"
  using predict_frame [where sa = "\<lparr>agg_max_clusters = 10, agg_n_clusters = Some 1,
      agg_optimal_clusters = Some 1,
      agg_model = Some \<lparr>Agglomerative_n_clusters = 1, Agglomerative_labels = Some [0, 0]\<rparr>\<rparr>"
    and est = "\<lparr>Agglomerative_n_clusters = 1, Agglomerative_labels = Some [0, 0]\<rparr>"
    and La = single_cluster and Xa = "[[0], [1], [2]]" and labels = "[0, 0, 0]",
    THEN conjunct2, THEN conjunct2, THEN conjunct2, THEN conjunct2]
  by (simp add: single_cluster_def)

section \<open>Lemmas on the numpy helpers and the sweeps\<close>

lemma argmin_from_spec:
  "best_i < length pre \<Longrightarrow> pre ! best_i = best \<Longrightarrow> \<forall>j<length pre. best \<le> pre ! j \<Longrightarrow>
   \<forall>j<best_i. best < pre ! j \<Longrightarrow>
   argmin_from xs (length pre) best_i best < length (pre @ xs)
   \<and> (\<forall>j<length (pre @ xs). (pre @ xs) ! argmin_from xs (length pre) best_i best \<le> (pre @ xs) ! j)
   \<and> (\<forall>j<argmin_from xs (length pre) best_i best.
         (pre @ xs) ! argmin_from xs (length pre) best_i best < (pre @ xs) ! j)"
proof (induction xs arbitrary: pre best_i best)
  case Nil
  then show ?case by simp
next
  case (Cons x xs)
  show ?case
  proof (cases "x < best")
    case True
    have a: "length pre < length (pre @ [x])" by simp
    have b: "(pre @ [x]) ! length pre = x" by simp
    have c: "\<forall>j<length (pre @ [x]). x \<le> (pre @ [x]) ! j"
      using Cons.prems True by (auto simp: nth_append less_Suc_eq)
    have d: "\<forall>j<length pre. x < (pre @ [x]) ! j"
      using Cons.prems True by (auto simp: nth_append)
    from Cons.IH[OF a b c d] True show ?thesis by simp
  next
    case False
    have a: "best_i < length (pre @ [x])" using Cons.prems by simp
    have b: "(pre @ [x]) ! best_i = best" using Cons.prems by (simp add: nth_append)
    have c: "\<forall>j<length (pre @ [x]). best \<le> (pre @ [x]) ! j"
      using Cons.prems False by (auto simp: nth_append less_Suc_eq)
    have d: "\<forall>j<best_i. best < (pre @ [x]) ! j"
      using Cons.prems by (auto simp: nth_append)
    from Cons.IH[OF a b c d] False show ?thesis by simp
  qed
qed

lemma np_argmin_spec:
  assumes "np_argmin xs = Inr i"
  shows "0 \<le> i \<and> nat i < length xs \<and> (\<forall>j<length xs. xs ! nat i \<le> xs ! j)
         \<and> (\<forall>j<nat i. xs ! nat i < xs ! j)"
proof (cases xs)
  case Nil
  with assms show ?thesis by (simp add: np_argmin_def)
next
  case (Cons x rest)
  have i: "i = int (argmin_from rest 1 0 x)" using assms Cons by (simp add: np_argmin_def)
  have "argmin_from rest (length [x]) 0 x < length ([x] @ rest)
   \<and> (\<forall>j<length ([x] @ rest). ([x] @ rest) ! argmin_from rest (length [x]) 0 x \<le> ([x] @ rest) ! j)
   \<and> (\<forall>j<argmin_from rest (length [x]) 0 x.
         ([x] @ rest) ! argmin_from rest (length [x]) 0 x < ([x] @ rest) ! j)"
    by (rule argmin_from_spec) simp_all
  then show ?thesis using i Cons by simp
qed

lemma np_argmin_nonempty: "xs \<noteq> [] \<Longrightarrow> \<exists>i. np_argmin xs = Inr i"
  by (cases xs) (simp_all add: np_argmin_def)

lemma GMMClustering_sweep_spec:
  "GMMClustering_sweep L self X ns acc = Inr criterions \<Longrightarrow>
   length criterions = length acc + length ns
   \<and> take (length acc) criterions = acc
   \<and> (ns \<noteq> [] \<longrightarrow> gmm_criterion self = ''aic'' \<or> gmm_criterion self = ''bic'')
   \<and> (\<forall>i<length ns. \<exists>g. sk_GaussianMixture_fit L (ns ! i) (gmm_random_state self) X = Inr g
          \<and> criterions ! (length acc + i)
             = (if gmm_criterion self = ''aic'' then sk_GaussianMixture_aic L g X
                else sk_GaussianMixture_bic L g X))"
proof (induction ns arbitrary: acc)
  case Nil
  then show ?case by simp
next
  case (Cons n ns)
  from Cons.prems obtain g where g: "sk_GaussianMixture_fit L n (gmm_random_state self) X = Inr g"
    by (auto split: sum.splits)
  define v where "v = (if gmm_criterion self = ''aic'' then sk_GaussianMixture_aic L g X
                else sk_GaussianMixture_bic L g X)"
  from Cons.prems g have crit: "gmm_criterion self = ''aic'' \<or> gmm_criterion self = ''bic''"
    by (auto split: if_splits)
  from Cons.prems g crit have rec: "GMMClustering_sweep L self X ns (acc @ [v]) = Inr criterions"
    by (auto simp: v_def split: if_splits)
  note ih = Cons.IH[OF rec]
  have len: "length criterions = length acc + length (n # ns)" using ih by simp
  have tk: "take (length (acc @ [v])) criterions = acc @ [v]" using ih by blast
  have tk1: "take (length acc) criterions = acc"
  proof -
    have "take (length acc) (take (length (acc @ [v])) criterions) = take (length acc) (acc @ [v])"
      using tk by simp
    then show ?thesis by (simp add: min_def)
  qed
  have at: "criterions ! length acc = v"
  proof -
    have "take (length (acc @ [v])) criterions ! length acc = criterions ! length acc"
      by (rule nth_take) simp
    then have "(acc @ [v]) ! length acc = criterions ! length acc"
      by (simp only: tk)
    then show ?thesis by simp
  qed
  have all: "\<forall>i<length (n # ns). \<exists>g. sk_GaussianMixture_fit L ((n # ns) ! i) (gmm_random_state self) X = Inr g
          \<and> criterions ! (length acc + i)
             = (if gmm_criterion self = ''aic'' then sk_GaussianMixture_aic L g X
                else sk_GaussianMixture_bic L g X)"
  proof (intro allI impI)
    fix i assume i: "i < length (n # ns)"
    show "\<exists>g. sk_GaussianMixture_fit L ((n # ns) ! i) (gmm_random_state self) X = Inr g
          \<and> criterions ! (length acc + i)
             = (if gmm_criterion self = ''aic'' then sk_GaussianMixture_aic L g X
                else sk_GaussianMixture_bic L g X)"
    proof (cases i)
      case 0
      then show ?thesis using g at unfolding v_def by simp
    next
      case (Suc k)
      then have "k < length ns" using i by simp
      with ih obtain g' where "sk_GaussianMixture_fit L (ns ! k) (gmm_random_state self) X = Inr g'
          \<and> criterions ! (length (acc @ [v]) + k)
             = (if gmm_criterion self = ''aic'' then sk_GaussianMixture_aic L g' X
                else sk_GaussianMixture_bic L g' X)" by blast
      then show ?thesis using Suc by auto
    qed
  qed
  show ?case using len tk1 crit all by blast
qed


lemma length_np_diff: "length (np_diff xs) = length xs - 1"
  by (induction xs rule: np_diff.induct) simp_all



lemma linalg_norm_squared:
  "(linalg_norm m)\<^sup>2 = sum_list (map (\<lambda>r. sum_list (map (\<lambda>x. x\<^sup>2) r)) m)"
proof -
  have "0 \<le> sum_list (map (\<lambda>r. sum_list (map (\<lambda>x. x\<^sup>2) r)) m)"
    by (intro sum_list_nonneg) (auto intro!: sum_list_nonneg)
  then show ?thesis by (simp add: linalg_norm_def)
qed

lemma wcss_of_labels_spec:
  "wcss_of_labels data k labels = within_cluster_sum_of_squares data k labels"
proof -
  let ?centroid = "\<lambda>i. mean_axis0 (ncols data) (select_rows data labels (int i))"
  have eq: "(linalg_norm (sub_broadcast (select_rows data labels (int i))
                 (map ?centroid [0 ..< nat k] ! i)))\<^sup>2
      = sum_list (map (\<lambda>r. sq_dist r (?centroid i)) (select_rows data labels (int i)))"
    if "i \<in> set [0 ..< nat k]" for i
  proof -
    from that have "map ?centroid [0 ..< nat k] ! i = ?centroid i" by simp
    then show ?thesis
      by (simp add: linalg_norm_squared sub_broadcast_def comp_def sq_dist_def case_prod_unfold)
  qed
  have "map (\<lambda>i. (linalg_norm (sub_broadcast (select_rows data labels (int i))
                 (map ?centroid [0 ..< nat k] ! i)))\<^sup>2) [0 ..< nat k]
      = map (\<lambda>i. sum_list (map (\<lambda>r. sq_dist r (?centroid i)) (select_rows data labels (int i))))
          [0 ..< nat k]"
    by (rule map_cong[OF refl]) (rule eq)
  then show ?thesis
    unfolding wcss_of_labels_def within_cluster_sum_of_squares_def Let_def
    by (rule arg_cong)
qed

lemma calculate_wcss_loop_spec:
  "calculate_wcss_loop L data ns acc = Inr wcss \<Longrightarrow>
   length wcss = length acc + length ns
   \<and> take (length acc) wcss = acc
   \<and> (\<forall>i<length ns. \<exists>labels. L (ns ! i) data = Inr labels
          \<and> wcss ! (length acc + i) = wcss_of_labels data (ns ! i) labels)"
proof (induction ns arbitrary: acc)
  case Nil
  then show ?case by simp
next
  case (Cons n ns)
  from Cons.prems obtain labels where l: "L n data = Inr labels"
    by (auto split: sum.splits)
  define v where "v = wcss_of_labels data n labels"
  from Cons.prems l have rec: "calculate_wcss_loop L data ns (acc @ [v]) = Inr wcss"
    by (simp add: v_def)
  note ih = Cons.IH[OF rec]
  have len: "length wcss = length acc + length (n # ns)" using ih by simp
  have tk: "take (length (acc @ [v])) wcss = acc @ [v]" using ih by blast
  have tk1: "take (length acc) wcss = acc"
  proof -
    have "take (length acc) (take (length (acc @ [v])) wcss) = take (length acc) (acc @ [v])"
      using tk by simp
    then show ?thesis by (simp add: min_def)
  qed
  have at: "wcss ! length acc = v"
  proof -
    have "take (length (acc @ [v])) wcss ! length acc = wcss ! length acc"
      by (rule nth_take) simp
    then have "(acc @ [v]) ! length acc = wcss ! length acc"
      by (simp only: tk)
    then show ?thesis by simp
  qed
  have all: "\<forall>i<length (n # ns). \<exists>labels. L ((n # ns) ! i) data = Inr labels
          \<and> wcss ! (length acc + i) = wcss_of_labels data ((n # ns) ! i) labels"
  proof (intro allI impI)
    fix i assume i: "i < length (n # ns)"
    show "\<exists>labels. L ((n # ns) ! i) data = Inr labels
          \<and> wcss ! (length acc + i) = wcss_of_labels data ((n # ns) ! i) labels"
    proof (cases i)
      case 0
      then show ?thesis using l at unfolding v_def by simp
    next
      case (Suc k)
      then have "k < length ns" using i by simp
      with ih obtain labels' where "L (ns ! k) data = Inr labels'
          \<and> wcss ! (length (acc @ [v]) + k) = wcss_of_labels data (ns ! k) labels'" by blast
      then show ?thesis using Suc by auto
    qed
  qed
  show ?case using len tk1 all by blast
qed

section \<open>Selection of the number of components and clusters\<close>

text \<open>
  C4. When \<^verbatim>\<open>n_components\<close> is \<^verbatim>\<open>None\<close> and \<^verbatim>\<open>GMMClustering.fit\<close> returns, the
  list \<^verbatim>\<open>criterions\<close> has one score for every count \<open>1, \<dots>, max_components\<close>, each the
  AIC (criterion \<^verbatim>\<open>'aic'\<close>) or BIC (criterion \<^verbatim>\<open>'bic'\<close>) of the mixture fitted with
  that count and the seed of the object; the selected count \<open>k + 1\<close> has a score that is
  least among all of them and strictly below the score of every smaller count (ties go
  to the smallest count); the stored model is the mixture fitted with the selected count.
\<close>

theorem GMMClustering_fit_selects_minimum:
  assumes auto: "gmm_n_components self = None"
    and ok: "GMMClustering_fit L self X = (Inr u, self1)"
  shows "\<exists>criterions k g.
      GMMClustering_sweep L self X [1 .. gmm_max_components self] [] = Inr criterions
    \<and> length criterions = nat (gmm_max_components self)
    \<and> (gmm_criterion self = ''aic'' \<or> gmm_criterion self = ''bic'')
    \<and> (\<forall>i<length criterions. \<exists>g.
          sk_GaussianMixture_fit L (int i + 1) (gmm_random_state self) X = Inr g
          \<and> criterions ! i = (if gmm_criterion self = ''aic'' then sk_GaussianMixture_aic L g X
                              else sk_GaussianMixture_bic L g X))
    \<and> k < length criterions
    \<and> (\<forall>j<length criterions. criterions ! k \<le> criterions ! j)
    \<and> (\<forall>j<k. criterions ! k < criterions ! j)
    \<and> gmm_optimal_components self1 = Some (int k + 1)
    \<and> sk_GaussianMixture_fit L (int k + 1) (gmm_random_state self) X = Inr g
    \<and> gmm_gmm self1 = Some \<lparr>GaussianMixture_n_components = int k + 1,
                              GaussianMixture_random_state = gmm_random_state self,
                              GaussianMixture_fitted = Some g\<rparr>"
proof -
  from auto ok obtain criterions where
    sw: "GMMClustering_sweep L self X [1 .. gmm_max_components self] [] = Inr criterions"
    by (auto simp: GMMClustering_fit_def split: sum.splits)
  from auto ok sw obtain i where am: "np_argmin criterions = Inr i"
    by (auto simp: GMMClustering_fit_def split: sum.splits)
  from auto ok sw am have fm: "GMMClustering_fit_model L self (i + 1) X = (Inr u, self1)"
    by (simp add: GMMClustering_fit_def)
  note sp = GMMClustering_sweep_spec[OF sw]
  note ap = np_argmin_spec[OF am]
  define k where "k = nat i"
  have ik: "i = int k" using ap by (simp add: k_def)
  have len: "length criterions = nat (gmm_max_components self)" using sp by simp
  have ne: "[1 .. gmm_max_components self] \<noteq> []" using ap len by auto
  have crit: "gmm_criterion self = ''aic'' \<or> gmm_criterion self = ''bic''" using sp ne by blast
  have each: "\<forall>i<length criterions. \<exists>g.
          sk_GaussianMixture_fit L (int i + 1) (gmm_random_state self) X = Inr g
          \<and> criterions ! i = (if gmm_criterion self = ''aic'' then sk_GaussianMixture_aic L g X
                              else sk_GaussianMixture_bic L g X)"
  proof (intro allI impI)
    fix j assume j: "j < length criterions"
    then have j': "j < length [1 .. gmm_max_components self]" using len by simp
    then have nth: "[1 .. gmm_max_components self] ! j = int j + 1" by simp
    from sp j' have "\<exists>g. sk_GaussianMixture_fit L ([1 .. gmm_max_components self] ! j) (gmm_random_state self) X = Inr g
          \<and> criterions ! (length ([]::real list) + j)
             = (if gmm_criterion self = ''aic'' then sk_GaussianMixture_aic L g X
                else sk_GaussianMixture_bic L g X)" by blast
    then show "\<exists>g. sk_GaussianMixture_fit L (int j + 1) (gmm_random_state self) X = Inr g
          \<and> criterions ! j = (if gmm_criterion self = ''aic'' then sk_GaussianMixture_aic L g X
                              else sk_GaussianMixture_bic L g X)"
      using nth by simp
  qed
  from fm obtain g where g: "sk_GaussianMixture_fit L (i + 1) (gmm_random_state self) X = Inr g"
    and s1: "self1 = self\<lparr>gmm_optimal_components := Some (i + 1),
        gmm_gmm := Some \<lparr>GaussianMixture_n_components = i + 1,
                              GaussianMixture_random_state = gmm_random_state self,
                              GaussianMixture_fitted = Some g\<rparr>\<rparr>"
    by (auto simp: GMMClustering_fit_model_def Let_def split: sum.splits)
  have k1: "k < length criterions" using ap by (simp add: k_def)
  have k2: "\<forall>j<length criterions. criterions ! k \<le> criterions ! j" using ap by (simp add: k_def)
  have k3: "\<forall>j<k. criterions ! k < criterions ! j" using ap by (simp add: k_def)
  have o: "gmm_optimal_components self1 = Some (int k + 1)" using s1 ik by simp
  have m: "gmm_gmm self1 = Some \<lparr>GaussianMixture_n_components = int k + 1,
                              GaussianMixture_random_state = gmm_random_state self,
                              GaussianMixture_fitted = Some g\<rparr>" using s1 ik by simp
  have g': "sk_GaussianMixture_fit L (int k + 1) (gmm_random_state self) X = Inr g" using g ik by simp
  show ?thesis using sw len crit each k1 k2 k3 o g' m by blast
qed

theorem GMMClustering_fit_selects_minimum_witness:
  "gmm_n_components (GMMClustering_init 3 ''aic'' None 42 :: int GMMClustering) = None
   \<and> GMMClustering_fit toy_mixture (GMMClustering_init 3 ''aic'' None 42) [[0], [1]]
       = (Inr (),
          \<lparr>gmm_max_components = 3, gmm_criterion = ''aic'', gmm_n_components = None,
           gmm_random_state = 42, gmm_optimal_components = Some 2,
           gmm_gmm = Some \<lparr>GaussianMixture_n_components = 2, GaussianMixture_random_state = 42,
                            GaussianMixture_fitted = Some 2\<rparr>\<rparr>)
   \<and> GMMClustering_sweep toy_mixture (GMMClustering_init 3 ''aic'' None 42) [[0], [1]] [1 .. 3] []
       = Inr [1, 0, 1]"
proof -
  let ?self = "GMMClustering_init 3 ''aic'' None 42 :: int GMMClustering"
  have h1: "gmm_n_components ?self = None"
    by (simp add: GMMClustering_init_def)
  have up: "[1 .. 3::int] = [1, 2, 3]"
    by (simp add: upto_rec1)
  have sw: "GMMClustering_sweep toy_mixture ?self [[0], [1]] [1 .. 3] [] = Inr [1, 0, 1]"
    by (simp add: up GMMClustering_init_def toy_mixture_def)
  have h2: "GMMClustering_fit toy_mixture ?self [[0], [1]]
       = (Inr (),
          \<lparr>gmm_max_components = 3, gmm_criterion = ''aic'', gmm_n_components = None,
           gmm_random_state = 42, gmm_optimal_components = Some 2,
           gmm_gmm = Some \<lparr>GaussianMixture_n_components = 2, GaussianMixture_random_state = 42,
                            GaussianMixture_fitted = Some 2\<rparr>\<rparr>)"
    using sw
    by (simp add: GMMClustering_fit_def np_argmin_def GMMClustering_fit_model_def
        GMMClustering_init_def toy_mixture_def)
  from GMMClustering_fit_selects_minimum [OF h1 h2] h1 h2 sw show ?thesis
    by (simp add: GMMClustering_init_def)
qed

lemma three_points_wcss:
  "calculate_wcss three_points (AgglomerativeClusteringOptimal_init 3 None) [[0], [1], [10]]
     = Inr [182 / 3, 1 / 2, 0]"
proof -
  have up: "[1 .. 3::int] = [1, 2, 3]"
    by (simp add: upto_rec1)
  have n2: "[0 ..< 2::nat] = [0, 1]" and n3: "[0 ..< 3::nat] = [0, 1, 2]"
    by (simp_all add: upt_rec)
  have w1: "within_cluster_sum_of_squares [[0], [1], [10]] 1 [0, 0, 0] = 182 / 3"
    by (simp add: within_cluster_sum_of_squares_def select_rows_def ncols_def mean_axis0_def
        sq_dist_def power2_eq_square)
  have w2: "within_cluster_sum_of_squares [[0], [1], [10]] 2 [0, 0, 1] = 1 / 2"
    by (simp add: within_cluster_sum_of_squares_def n2 select_rows_def ncols_def mean_axis0_def
        sq_dist_def power2_eq_square)
  have w3: "within_cluster_sum_of_squares [[0], [1], [10]] 3 [0, 1, 2] = 0"
    by (simp add: within_cluster_sum_of_squares_def n3 select_rows_def ncols_def mean_axis0_def
        sq_dist_def power2_eq_square)
  show ?thesis
    by (simp add: calculate_wcss_def AgglomerativeClusteringOptimal_init_def up three_points_def
        wcss_of_labels_spec w1 w2 w3)
qed

lemma two_clusters_wcss:
  "calculate_wcss three_points (AgglomerativeClusteringOptimal_init 2 None) [[0], [1], [10]]
     = Inr [182 / 3, 1 / 2]"
proof -
  have up: "[1 .. 2::int] = [1, 2]"
    by (simp add: upto_rec1)
  have n2: "[0 ..< 2::nat] = [0, 1]"
    by (simp add: upt_rec)
  have w1: "within_cluster_sum_of_squares [[0], [1], [10]] 1 [0, 0, 0] = 182 / 3"
    by (simp add: within_cluster_sum_of_squares_def select_rows_def ncols_def mean_axis0_def
        sq_dist_def power2_eq_square)
  have w2: "within_cluster_sum_of_squares [[0], [1], [10]] 2 [0, 0, 1] = 1 / 2"
    by (simp add: within_cluster_sum_of_squares_def n2 select_rows_def ncols_def mean_axis0_def
        sq_dist_def power2_eq_square)
  show ?thesis
    by (simp add: calculate_wcss_def AgglomerativeClusteringOptimal_init_def up three_points_def
        wcss_of_labels_spec w1 w2)
qed

lemma calculate_wcss_length:
  "calculate_wcss L self data = Inr wcss \<Longrightarrow> length wcss = nat (agg_max_clusters self)"
  using calculate_wcss_loop_spec [of L data "[1 .. agg_max_clusters self]" "[]" wcss]
  by (simp add: calculate_wcss_def)



text \<open>
  C8, as stated, fails: with \<^verbatim>\<open>max_clusters = 2\<close> the WCSS sweep over the points
  0, 1, 10 succeeds, the second difference of its two values is empty, and the selector
  raises \<^verbatim>\<open>ValueError\<close> instead of returning a count; so does \<^verbatim>\<open>fit\<close>.
\<close>

theorem find_optimal_clusters_two_counterexample:
  "calculate_wcss three_points (AgglomerativeClusteringOptimal_init 2 None) [[0], [1], [10]]
     = Inr [182 / 3, 1 / 2]
   \<and> find_optimal_clusters three_points (AgglomerativeClusteringOptimal_init 2 None)
        [[0], [1], [10]]
     = Inl (ValueError ''attempt to get argmin of an empty sequence'')
   \<and> AgglomerativeClusteringOptimal_fit three_points (AgglomerativeClusteringOptimal_init 2 None)
        [[0], [1], [10]]
     = (Inl (ValueError ''attempt to get argmin of an empty sequence''),
        AgglomerativeClusteringOptimal_init 2 None)"
proof -
  have n: "agg_n_clusters (AgglomerativeClusteringOptimal_init 2 None) = None"
    by (simp add: AgglomerativeClusteringOptimal_init_def)
  have fo: "find_optimal_clusters three_points (AgglomerativeClusteringOptimal_init 2 None)
        [[0], [1], [10]]
     = Inl (ValueError ''attempt to get argmin of an empty sequence'')"
    by (simp add: find_optimal_clusters_def two_clusters_wcss np_argmin_def)
  show ?thesis
    by (simp add: AgglomerativeClusteringOptimal_fit_def n fo two_clusters_wcss)
qed

text \<open>
  C8, amended. When the WCSS sweep succeeds and \<^verbatim>\<open>max_clusters\<close> is at least 3, the
  hierarchical selector returns a count between 2 and \<^verbatim>\<open>max_clusters - 1\<close>, whatever
  the WCSS values are (tied or without an elbow); when \<^verbatim>\<open>max_clusters\<close> is at most 2
  it raises \<^verbatim>\<open>ValueError\<close>. When the sweep of the mixture variant succeeds and
  \<^verbatim>\<open>max_components\<close> is at least 1, the selected count \<open>argmin + 1\<close> lies between 1 and
  \<^verbatim>\<open>max_components\<close>.
\<close>

theorem selectors_in_range:
  "(calculate_wcss L self data = Inr wcss \<and> 3 \<le> agg_max_clusters self
      \<longrightarrow> (\<exists>k. find_optimal_clusters L self data = Inr k
                \<and> 2 \<le> k \<and> k \<le> agg_max_clusters self - 1))
   \<and> (calculate_wcss L self data = Inr wcss \<and> agg_max_clusters self \<le> 2
      \<longrightarrow> find_optimal_clusters L self data
            = Inl (ValueError ''attempt to get argmin of an empty sequence''))
   \<and> (GMMClustering_sweep Lg selfg X [1 .. gmm_max_components selfg] [] = Inr criterions
        \<and> 1 \<le> gmm_max_components selfg
      \<longrightarrow> (\<exists>i. np_argmin criterions = Inr i \<and> 1 \<le> i + 1 \<and> i + 1 \<le> gmm_max_components selfg))"
proof (intro conjI impI)
  assume a: "calculate_wcss L self data = Inr wcss \<and> 3 \<le> agg_max_clusters self"
  then have len: "length wcss = nat (agg_max_clusters self)" using calculate_wcss_length by blast
  have l2: "length (np_diff (np_diff wcss)) = length wcss - 2" by (simp add: length_np_diff)
  with len a have "np_diff (np_diff wcss) \<noteq> []" by auto
  then obtain i where am: "np_argmin (np_diff (np_diff wcss)) = Inr i"
    using np_argmin_nonempty by blast
  note ap = np_argmin_spec[OF am]
  have "find_optimal_clusters L self data = Inr (i + 2)"
    using a am by (simp add: find_optimal_clusters_def)
  moreover have "2 \<le> i + 2" using ap by simp
  moreover have "i + 2 \<le> agg_max_clusters self - 1" using ap l2 len by linarith
  ultimately show "\<exists>k. find_optimal_clusters L self data = Inr k
                \<and> 2 \<le> k \<and> k \<le> agg_max_clusters self - 1" by blast
next
  assume a: "calculate_wcss L self data = Inr wcss \<and> agg_max_clusters self \<le> 2"
  then have len: "length wcss = nat (agg_max_clusters self)" using calculate_wcss_length by blast
  have l2: "length (np_diff (np_diff wcss)) = length wcss - 2" by (simp add: length_np_diff)
  with len a have "np_diff (np_diff wcss) = []" by auto
  then show "find_optimal_clusters L self data
            = Inl (ValueError ''attempt to get argmin of an empty sequence'')"
    using a by (simp add: find_optimal_clusters_def np_argmin_def)
next
  assume a: "GMMClustering_sweep Lg selfg X [1 .. gmm_max_components selfg] [] = Inr criterions
        \<and> 1 \<le> gmm_max_components selfg"
  then have len: "length criterions = nat (gmm_max_components selfg)"
    using GMMClustering_sweep_spec [of Lg selfg X "[1 .. gmm_max_components selfg]" "[]" criterions]
    by simp
  with a have "criterions \<noteq> []" by auto
  then obtain i where am: "np_argmin criterions = Inr i"
    using np_argmin_nonempty by blast
  note ap = np_argmin_spec[OF am]
  have "1 \<le> i + 1" using ap by simp
  moreover have "i + 1 \<le> gmm_max_components selfg" using ap len by linarith
  ultimately show "\<exists>i. np_argmin criterions = Inr i \<and> 1 \<le> i + 1 \<and> i + 1 \<le> gmm_max_components selfg"
    using am by blast
qed

theorem selectors_in_range_witness:
  "calculate_wcss three_points (AgglomerativeClusteringOptimal_init 3 None) [[0], [1], [10]]
     = Inr [182 / 3, 1 / 2, 0]
   \<and> (3::int) \<le> agg_max_clusters (AgglomerativeClusteringOptimal_init 3 None)
   \<and> (\<exists>k. find_optimal_clusters three_points (AgglomerativeClusteringOptimal_init 3 None)
          [[0], [1], [10]] = Inr k
        \<and> 2 \<le> k \<and> k \<le> agg_max_clusters (AgglomerativeClusteringOptimal_init 3 None) - 1)
   \<and> calculate_wcss three_points (AgglomerativeClusteringOptimal_init 2 None) [[0], [1], [10]]
     = Inr [182 / 3, 1 / 2]
   \<and> agg_max_clusters (AgglomerativeClusteringOptimal_init 2 None) \<le> 2
   \<and> find_optimal_clusters three_points (AgglomerativeClusteringOptimal_init 2 None)
        [[0], [1], [10]]
     = Inl (ValueError ''attempt to get argmin of an empty sequence'')
   \<and> GMMClustering_sweep toy_mixture (GMMClustering_init 3 ''aic'' None 42) [[0], [1]]
        [1 .. gmm_max_components (GMMClustering_init 3 ''aic'' None 42 :: int GMMClustering)] []
     = Inr [1, 0, 1]
   \<and> 1 \<le> gmm_max_components (GMMClustering_init 3 ''aic'' None 42 :: int GMMClustering)
   \<and> (\<exists>i. np_argmin [1, 0, 1] = Inr i \<and> 1 \<le> i + 1
        \<and> i + 1 \<le> gmm_max_components (GMMClustering_init 3 ''aic'' None 42 :: int GMMClustering))"
proof -
  have a: "calculate_wcss three_points (AgglomerativeClusteringOptimal_init 3 None) [[0], [1], [10]]
     = Inr [182 / 3, 1 / 2, 0]
   \<and> (3::int) \<le> agg_max_clusters (AgglomerativeClusteringOptimal_init 3 None)"
    using three_points_wcss by (simp add: AgglomerativeClusteringOptimal_init_def)
  have b: "calculate_wcss three_points (AgglomerativeClusteringOptimal_init 2 None) [[0], [1], [10]]
     = Inr [182 / 3, 1 / 2]
   \<and> agg_max_clusters (AgglomerativeClusteringOptimal_init 2 None) \<le> 2"
    using two_clusters_wcss by (simp add: AgglomerativeClusteringOptimal_init_def)
  have up: "[1 .. 3::int] = [1, 2, 3]"
    by (simp add: upto_rec1)
  have c: "GMMClustering_sweep toy_mixture (GMMClustering_init 3 ''aic'' None 42) [[0], [1]]
        [1 .. gmm_max_components (GMMClustering_init 3 ''aic'' None 42 :: int GMMClustering)] []
     = Inr [1, 0, 1]
   \<and> 1 \<le> gmm_max_components (GMMClustering_init 3 ''aic'' None 42 :: int GMMClustering)"
    by (simp add: up GMMClustering_init_def toy_mixture_def)
  from selectors_in_range [THEN conjunct1, rule_format, OF a]
    selectors_in_range [THEN conjunct2, THEN conjunct1, rule_format, OF b]
    selectors_in_range [THEN conjunct2, THEN conjunct2, rule_format, OF c] a b c
  show ?thesis
    by blast
qed

section \<open>The result aggregator\<close>

lemma update_fresh: "k \<notin> fst ` set al \<Longrightarrow> AList.update k v al = al @ [(k, v)]"
  by (induction al) auto

lemma filter_fresh: "k \<notin> fst ` set al \<Longrightarrow> filter (\<lambda>(c, vals). c = k) al = []"
  by (induction al) auto

lemma keys_to_dataframe:
  "fst ` set (map (\<lambda>(c, vals). (c, map F vals)) cols) = fst ` set cols"
  by (induction cols) auto

lemma mean_axis1_floats:
  assumes "list_all (\<lambda>(c, vals). length vals = length idx) cols"
  shows "mean_axis1 \<lparr>df_index = idx, df_columns = map (\<lambda>(c, vals). (c, map F vals)) cols\<rparr>
     = Inr (map (\<lambda>i. F (pd_mean (map (\<lambda>(c, vals). vals ! i) cols))) [0 ..< length idx])"
proof -
  have chk: "list_all (\<lambda>(c, vals). list_all (\<lambda>v. cell_float v \<noteq> None) vals)
          (map (\<lambda>(c, vals). (c, map F vals)) cols)"
    by (induction cols) (auto simp: list_all_iff)
  have row: "map (\<lambda>(c, vals). the (cell_float (vals ! i))) (map (\<lambda>(c, vals). (c, map F vals)) cols)
      = map (\<lambda>(c, vals). vals ! i) cols" if "i < length idx" for i
    using assms that by (induction cols) auto
  have "map (\<lambda>i. F (pd_mean (map (\<lambda>(c, vals). the (cell_float (vals ! i)))
                 (map (\<lambda>(c, vals). (c, map F vals)) cols)))) [0 ..< length idx]
      = map (\<lambda>i. F (pd_mean (map (\<lambda>(c, vals). vals ! i) cols))) [0 ..< length idx]"
  proof (rule map_cong[OF refl])
    fix i assume "i \<in> set [0 ..< length idx]"
    then have "i < length idx" by simp
    from row[OF this]
    show "F (pd_mean (map (\<lambda>(c, vals). the (cell_float (vals ! i)))
                 (map (\<lambda>(c, vals). (c, map F vals)) cols)))
        = F (pd_mean (map (\<lambda>(c, vals). vals ! i) cols))"
      by (simp only:)
  qed
  then show ?thesis using chk by (simp add: mean_axis1_def del: map_map)
qed

lemma foldl_fadd_Fin: "foldl fadd (Fin a) (map Fin xs) = Fin (a + sum_list xs)"
  by (induction xs arbitrary: a) (simp_all add: add.assoc)

lemma pd_mean_finite:
  "xs \<noteq> [] \<Longrightarrow> pd_mean (map Fin xs) = Fin (sum_list xs / real (length xs))"
proof (cases xs)
  case Nil
  then show "xs \<noteq> [] \<Longrightarrow> ?thesis" by simp
next
  case (Cons a rest)
  have "filter (\<lambda>v. v \<noteq> NaN) (map Fin xs) = map Fin xs"
    by (induction xs) simp_all
  then show ?thesis
    using Cons by (simp add: pd_mean_def foldl_fadd_Fin)
qed

lemma tickers_clusters_er_result:
  assumes ok: "tickers_clusters_er L n_clusters df_er = Inr (result, df_er1)"
    and wf: "well_formed df_er"
    and n1: "''cluster_label'' \<notin> fst ` set (columns df_er)"
    and n2: "''mean_er'' \<notin> fst ` set (columns df_er)"
    and n3: "''symbol'' \<notin> fst ` set (columns df_er)"
  shows "\<exists>cluster_labels.
      fst (KMeansClustering_fit_predict L (KMeansClustering_init 10 42 (Some n_clusters))
             (min_max_normalize df_er)) = Inr cluster_labels
    \<and> length cluster_labels = length (index df_er)
    \<and> df_columns result =
        [(''symbol'', map S (index df_er)),
         (''mean_er'', map (\<lambda>i. F (pd_mean (map (\<lambda>(c, vals). vals ! i) (columns df_er))))
                          [0 ..< length (index df_er)]),
         (''cluster_label'', map I cluster_labels)]
    \<and> df_index result = map (\<lambda>i. I (int i)) [0 ..< length (index df_er)]"
proof -
  let ?cols = "map (\<lambda>(c, vals). (c, map F vals)) (columns df_er)"
  let ?mean = "map (\<lambda>i. F (pd_mean (map (\<lambda>(c, vals). vals ! i) (columns df_er))))
                          [0 ..< length (index df_er)]"
  from ok obtain cluster_labels where
    fp: "fst (KMeansClustering_fit_predict L (KMeansClustering_init 10 42 (Some n_clusters))
             (min_max_normalize df_er)) = Inr cluster_labels"
    by (auto simp: tickers_clusters_er_def Let_def split: sum.splits)
  from ok fp obtain df1 where
    s1: "set_item (to_dataframe df_er) ''cluster_label'' (map I cluster_labels) = Inr df1"
    by (auto simp: tickers_clusters_er_def Let_def split: sum.splits)
  have len: "length cluster_labels = length (index df_er)"
    using s1 by (auto simp: set_item_def to_dataframe_def split: if_splits)
  have k1: "''cluster_label'' \<notin> fst ` set ?cols" unfolding keys_to_dataframe by (rule n1)
  have df1: "df1 = \<lparr>df_index = map S (index df_er),
                    df_columns = ?cols @ [(''cluster_label'', map I cluster_labels)]\<rparr>"
    using s1 len update_fresh[OF k1] by (auto simp: set_item_def to_dataframe_def)
  have il: "iloc_all_but_last df1 = \<lparr>df_index = map S (index df_er), df_columns = ?cols\<rparr>"
    by (simp add: df1 iloc_all_but_last_def)
  have wf': "list_all (\<lambda>(c, vals). length vals = length (map S (index df_er))) (columns df_er)"
    using wf by (simp add: well_formed_def)
  have m: "mean_axis1 (iloc_all_but_last df1) = Inr ?mean"
    using mean_axis1_floats[OF wf'] by (simp add: il)
  have k2': "''mean_er'' \<notin> fst ` set ?cols" unfolding keys_to_dataframe by (rule n2)
  have k2: "''mean_er'' \<notin> fst ` set (?cols @ [(''cluster_label'', map I cluster_labels)])"
    using k2' by simp
  define df2 where "df2 = \<lparr>df_index = map S (index df_er),
        df_columns = ?cols @ [(''cluster_label'', map I cluster_labels), (''mean_er'', ?mean)]\<rparr>"
  have s2: "set_item df1 ''mean_er'' ?mean = Inr df2"
    using update_fresh[OF k2] by (simp add: set_item_def df1 df2_def)
  have k3: "''symbol'' \<notin> fst ` set ?cols" unfolding keys_to_dataframe by (rule n3)
  have f1: "filter (\<lambda>(c, vals). c = ''symbol'') (df_columns (reset_index_symbol df2)) = [(''symbol'', map S (index df_er))]"
    using filter_fresh[OF k3] by (simp add: df2_def reset_index_symbol_def)
  have f2: "filter (\<lambda>(c, vals). c = ''mean_er'') (df_columns (reset_index_symbol df2)) = [(''mean_er'', ?mean)]"
    using filter_fresh[OF k2'] by (simp add: df2_def reset_index_symbol_def)
  have f3: "filter (\<lambda>(c, vals). c = ''cluster_label'') (df_columns (reset_index_symbol df2))
      = [(''cluster_label'', map I cluster_labels)]"
    using filter_fresh[OF k1] by (simp add: df2_def reset_index_symbol_def)
  have sel: "select_columns (reset_index_symbol df2) [''symbol'', ''mean_er'', ''cluster_label''] []
      = Inr ((reset_index_symbol df2)\<lparr>df_columns := [(''symbol'', map S (index df_er)), (''mean_er'', ?mean),
             (''cluster_label'', map I cluster_labels)]\<rparr>)"
    by (simp add: f1 f2 f3)
  from ok have
    res: "result = (reset_index_symbol df2)\<lparr>df_columns := [(''symbol'', map S (index df_er)), (''mean_er'', ?mean),
             (''cluster_label'', map I cluster_labels)]\<rparr>"
    by (auto simp add: tickers_clusters_er_def Let_def fp s1 m s2 sel simp del: select_columns.simps)
  have c: "df_columns result = [(''symbol'', map S (index df_er)), (''mean_er'', ?mean),
             (''cluster_label'', map I cluster_labels)]" by (simp add: res)
  have i: "df_index result = map (\<lambda>i. I (int i)) [0 ..< length (index df_er)]"
    by (simp add: res df2_def reset_index_symbol_def)
  show ?thesis using fp len c i by blast
qed

text \<open>
  C9. When \<^verbatim>\<open>tickers_clusters_er\<close> returns on a well-formed feature frame whose
  columns are the period columns (none is labelled \<^verbatim>\<open>cluster_label\<close>, \<^verbatim>\<open>mean_er\<close> or
  \<^verbatim>\<open>symbol\<close>), the returned frame has exactly the three columns \<^verbatim>\<open>symbol\<close>,
  \<^verbatim>\<open>mean_er\<close>, \<^verbatim>\<open>cluster_label\<close>, one row per row of the feature frame: the row
  labels of the feature frame, the mean of the row over all the period columns (the
  appended label column is not part of it; \<open>pd_mean\<close> is the arithmetic mean on finite
  entries, see \<open>pd_mean_finite\<close>), and the labels that \<^verbatim>\<open>fit_predict\<close> returned for the
  normalized frame.
\<close>

theorem tickers_clusters_er_table:
  assumes ok: "tickers_clusters_er L n_clusters df_er = Inr (result, df_er1)"
    and wf: "well_formed df_er"
    and n1: "''cluster_label'' \<notin> fst ` set (columns df_er)"
    and n2: "''mean_er'' \<notin> fst ` set (columns df_er)"
    and n3: "''symbol'' \<notin> fst ` set (columns df_er)"
  shows "\<exists>cluster_labels.
      fst (KMeansClustering_fit_predict L (KMeansClustering_init 10 42 (Some n_clusters))
             (min_max_normalize df_er)) = Inr cluster_labels
    \<and> length cluster_labels = length (index df_er)
    \<and> df_columns result =
        [(''symbol'', map S (index df_er)),
         (''mean_er'', map (\<lambda>i. F (pd_mean (map (\<lambda>(c, vals). vals ! i) (columns df_er))))
                          [0 ..< length (index df_er)]),
         (''cluster_label'', map I cluster_labels)]
    \<and> df_index result = map (\<lambda>i. I (int i)) [0 ..< length (index df_er)]"
  using ok wf n1 n2 n3 by (rule tickers_clusters_er_result)

lemma toy_tickers_clusters_er:
  "tickers_clusters_er toy_KMeans 2
      \<lparr>index = [''A'', ''B''],
       columns = [(''period_2'', [Fin (1 / 3), Fin (5 / 7)]),
                  (''period_3'', [Fin (1 / 4), Fin (5 / 8)])]\<rparr>
   = Inr (\<lparr>df_index = [I 0, I 1],
           df_columns = [(''symbol'', [S ''A'', S ''B'']),
                         (''mean_er'', [F (Fin (7 / 24)), F (Fin (75 / 112))]),
                         (''cluster_label'', [I 0, I 1])]\<rparr>,
          \<lparr>df_index = [I 0, I 1],
           df_columns = [(''symbol'', [S ''A'', S ''B'']),
                         (''period_2'', [F (Fin (1 / 3)), F (Fin (5 / 7))]),
                         (''period_3'', [F (Fin (1 / 4)), F (Fin (5 / 8))]),
                         (''cluster_label'', [I 0, I 1]),
                         (''mean_er'', [F (Fin (7 / 24)), F (Fin (75 / 112))])]\<rparr>)"
proof -
  have nm: "min_max_normalize \<lparr>index = [''A'', ''B''],
       columns = [(''period_2'', [Fin (1 / 3), Fin (5 / 7)]),
                  (''period_3'', [Fin (1 / 4), Fin (5 / 8)])]\<rparr>
     = \<lparr>index = [''A'', ''B''],
        columns = [(''period_2'', [Fin 0, Fin 1]), (''period_3'', [Fin 0, Fin 1])]\<rparr>"
    by (simp add: min_max_normalize_def frame_div_series_def frame_sub_series_def frame_min_def
        frame_max_def series_sub_def series_get_def pd_min_def pd_max_def)
  have fp: "fst (KMeansClustering_fit_predict toy_KMeans (KMeansClustering_init 10 42 (Some 2))
       \<lparr>index = [''A'', ''B''],
        columns = [(''period_2'', [Fin 0, Fin 1]), (''period_3'', [Fin 0, Fin 1])]\<rparr>)
     = Inr [0, 1]"
    by (simp add: KMeansClustering_fit_predict_def KMeansClustering_fit_def
        KMeansClustering_fit_model_def KMeansClustering_predict_def KMeans_predict_def
        KMeansClustering_init_def toy_KMeans_def has_nan_def upt_rec)
  show ?thesis
    by (simp add: tickers_clusters_er_def nm fp to_dataframe_def set_item_def
        iloc_all_but_last_def mean_axis1_def pd_mean_def reset_index_symbol_def upt_rec)
qed

theorem tickers_clusters_er_table_witness:
  "well_formed \<lparr>index = [''A'', ''B''],
       columns = [(''period_2'', [Fin (1 / 3), Fin (5 / 7)]),
                  (''period_3'', [Fin (1 / 4), Fin (5 / 8)])]\<rparr>
   \<and> (\<exists>result df_er1 cluster_labels.
        tickers_clusters_er toy_KMeans 2
          \<lparr>index = [''A'', ''B''],
           columns = [(''period_2'', [Fin (1 / 3), Fin (5 / 7)]),
                      (''period_3'', [Fin (1 / 4), Fin (5 / 8)])]\<rparr> = Inr (result, df_er1)
        \<and> length cluster_labels = 2
        \<and> df_columns result =
            [(''symbol'', [S ''A'', S ''B'']),
             (''mean_er'', [F (Fin (7 / 24)), F (Fin (75 / 112))]),
             (''cluster_label'', map I cluster_labels)])"
proof -
  let ?df = "\<lparr>index = [''A'', ''B''],
       columns = [(''period_2'', [Fin (1 / 3), Fin (5 / 7)]),
                  (''period_3'', [Fin (1 / 4), Fin (5 / 8)])]\<rparr>"
  have wf: "well_formed ?df" by (simp add: well_formed_def)
  have n1: "''cluster_label'' \<notin> fst ` set (columns ?df)" by simp
  have n2: "''mean_er'' \<notin> fst ` set (columns ?df)" by simp
  have n3: "''symbol'' \<notin> fst ` set (columns ?df)" by simp
  from tickers_clusters_er_table [OF toy_tickers_clusters_er wf n1 n2 n3]
  obtain cluster_labels where
    "length cluster_labels = length (index ?df)"
    "df_columns \<lparr>df_index = [I 0, I 1],
           df_columns = [(''symbol'', [S ''A'', S ''B'']),
                         (''mean_er'', [F (Fin (7 / 24)), F (Fin (75 / 112))]),
                         (''cluster_label'', [I 0, I 1])]\<rparr>
      = [(''symbol'', map S (index ?df)),
         (''mean_er'', map (\<lambda>i. F (pd_mean (map (\<lambda>(c, vals). vals ! i) (columns ?df))))
                          [0 ..< length (index ?df)]),
         (''cluster_label'', map I cluster_labels)]"
    by blast
  then have "length cluster_labels = 2
     \<and> [(''symbol'', [S ''A'', S ''B'']),
                         (''mean_er'', [F (Fin (7 / 24)), F (Fin (75 / 112))]),
                         (''cluster_label'', [I 0, I 1])]
        = [(''symbol'', [S ''A'', S ''B'']),
             (''mean_er'', [F (Fin (7 / 24)), F (Fin (75 / 112))]),
             (''cluster_label'', map I cluster_labels)]"
    by simp
  with wf toy_tickers_clusters_er show ?thesis
    by (intro conjI exI) (assumption, auto)
qed

section \<open>Min-max normalization\<close>














section \<open>The pipeline: instruments, invalid inputs\<close>

lemma load_data_loop_length:
  "load_data_loop MT5 sd ed tf symbols acc = Inr closes \<Longrightarrow>
   length closes = length acc + length symbols"
proof (induction symbols arbitrary: acc)
  case Nil
  then show ?case by simp
next
  case (Cons symbol rest)
  then show ?case by (auto split: sum.splits)
qed

lemma load_data_columns:
  assumes "load_data MT5 tickers sd ed tf = Inr df_tickers"
  shows "map fst (columns df_tickers) = tickers"
proof -
  from assms obtain closes df0 df1 where
    l: "load_data_loop MT5 sd ed tf tickers [] = Inr closes"
    and c: "pd_concat_axis1 closes = Inr df0"
    and s: "set_columns df0 tickers = Inr df1"
    and d: "df_tickers = dropna df1"
    by (auto simp: load_data_def split: sum.splits)
  from s have "length tickers = length (columns df0)"
    and "columns df1 = zip tickers (map snd (columns df0))"
    by (auto simp: set_columns_def split: if_splits)
  then have "map fst (columns df1) = tickers" by simp
  then show ?thesis
    by (simp add: d dropna_def Let_def comp_def case_prod_unfold)
qed

lemma keys_foldl_update:
  "distinct (map fst acc) \<Longrightarrow>
   distinct (map fst (foldl (\<lambda>df_er (k, v). AList.update k (f v) df_er) acc kvs))
   \<and> set (map fst (foldl (\<lambda>df_er (k, v). AList.update k (f v) df_er) acc kvs))
       = set (map fst acc) \<union> set (map fst kvs)"
proof (induction kvs arbitrary: acc)
  case Nil
  then show ?case by simp
next
  case (Cons kv kvs)
  obtain k v where kv: "kv = (k, v)" by (cases kv)
  have d: "distinct (map fst (AList.update k (f v) acc))"
    using Cons.prems by (rule distinct_update)
  have s: "set (map fst (AList.update k (f v) acc)) = insert k (set (map fst acc))"
    using dom_update[of k "f v" acc] by simp
  from Cons.IH[OF d] s show ?case by (auto simp: kv)
qed

lemma er_column_means_keys:
  "distinct (map fst (er_column_means er_mean df_tickers length'))
   \<and> set (map fst (er_column_means er_mean df_tickers length')) = set (map fst (columns df_tickers))"
  using keys_foldl_update[of "[]" "\<lambda>v. er_mean v length'" "columns df_tickers"]
  by (simp add: er_column_means_def)

lemma calculate_er_frame:
  assumes "calculate_er er_mean df_tickers init_period end_period = Inr df_er"
  shows "distinct (index df_er)"
    and "set (index df_er) = set (map fst (columns df_tickers))"
    and "well_formed df_er"
    and "\<forall>c \<in> fst ` set (columns df_er). \<exists>key. c = ''period_'' @ key"
    and "init_period < end_period"
proof -
  let ?lens = "[init_period .. end_period - 1]"
  let ?frames = "map (\<lambda>(key, value). (''period_'' @ key, value))
      (map (\<lambda>length'. (str_int length', er_column_means er_mean df_tickers length')) ?lens)"
  from assms have pc: "pd_concat_columns ?frames = Inr df_er"
    by (simp add: calculate_er_def Let_def)
  then obtain c s rest where fr: "?frames = (c, s) # rest"
    by (cases ?frames) (auto simp: pd_concat_columns_def)
  then have ne: "?lens \<noteq> []" by auto
  then show "init_period < end_period" by (cases "init_period < end_period") auto
  from fr ne have s: "s = er_column_means er_mean df_tickers (hd ?lens)"
    by (cases ?lens) auto
  from pc fr have df: "df_er = \<lparr>index = map fst s,
       columns = map (\<lambda>(c, s1). (c, map (\<lambda>k. series_get s1 k) (map fst s))) ?frames\<rparr>"
    by (simp add: pd_concat_columns_def)
  show "distinct (index df_er)" and "set (index df_er) = set (map fst (columns df_tickers))"
    using er_column_means_keys[of er_mean df_tickers "hd ?lens"] by (simp_all add: df s)
  show "well_formed df_er"
    by (simp add: df well_formed_def list_all_iff case_prod_unfold)
  show "\<forall>c \<in> fst ` set (columns df_er). \<exists>key. c = ''period_'' @ key"
    by (auto simp: df)
qed

lemma period_label_fresh:
  assumes "\<forall>c \<in> fst ` set cols. \<exists>key. c = ''period_'' @ key"
  shows "''cluster_label'' \<notin> fst ` set cols" and "''mean_er'' \<notin> fst ` set cols"
    and "''symbol'' \<notin> fst ` set cols"
  using assms by auto

lemma str_int_2: "str_int 2 = ''2''" and str_int_3: "str_int 3 = ''3''"
  and str_int_4: "str_int 4 = ''4''"
  by (simp_all add: str_int_def str_nat.simps)

lemma toy_load_data:
  "load_data toy_MT5 [''A'', ''B''] sd ed tf
     = Inr \<lparr>index = [0, 1, 2],
            columns = [(''A'', [Fin 1, Fin 2, Fin 4]), (''B'', [Fin 5, Fin 6, Fin 6])]\<rparr>"
  by (simp add: load_data_def toy_MT5_def pd_concat_axis1_def set_columns_def dropna_def
      upt_rec Let_def)

lemma toy_calculate_er_short:
  "calculate_er toy_er \<lparr>index = [0, 1, 2],
            columns = [(''A'', [Fin 1, Fin 2, Fin 4]), (''B'', [Fin 5, Fin 6, Fin 6])]\<rparr> 2 5
     = Inr \<lparr>index = [''A'', ''B''],
            columns = [(''period_2'', [Fin (1 / 3), Fin (5 / 7)]),
                       (''period_3'', [NaN, NaN]), (''period_4'', [NaN, NaN])]\<rparr>"
proof -
  have up: "[2 .. 5 - 1 :: int] = [2, 3, 4]"
    by (simp add: upto_rec1)
  show ?thesis
    by (simp add: calculate_er_def up str_int_2 str_int_3 str_int_4 er_column_means_def
        toy_er_def pd_concat_columns_def series_get_def)
qed

lemma toy_calculate_er:
  "calculate_er toy_er \<lparr>index = [0, 1, 2],
            columns = [(''A'', [Fin 1, Fin 2, Fin 4]), (''B'', [Fin 5, Fin 6, Fin 6])]\<rparr> 2 3
     = Inr \<lparr>index = [''A'', ''B''],
            columns = [(''period_2'', [Fin (1 / 3), Fin (5 / 7)])]\<rparr>"
proof -
  have up: "[2 .. 3 - 1 :: int] = [2]"
    by (simp add: upto_rec1)
  show ?thesis
    by (simp add: calculate_er_def up str_int_2 er_column_means_def
        toy_er_def pd_concat_columns_def series_get_def)
qed

lemma toy_normalize_short:
  "min_max_normalize \<lparr>index = [''A'', ''B''],
            columns = [(''period_2'', [Fin (1 / 3), Fin (5 / 7)]),
                       (''period_3'', [NaN, NaN]), (''period_4'', [NaN, NaN])]\<rparr>
   = \<lparr>index = [''A'', ''B''],
            columns = [(''period_2'', [Fin 0, Fin 1]),
                       (''period_3'', [NaN, NaN]), (''period_4'', [NaN, NaN])]\<rparr>"
  by (simp add: min_max_normalize_def frame_div_series_def frame_sub_series_def frame_min_def
      frame_max_def series_sub_def series_get_def pd_min_def pd_max_def)

lemma toy_normalize:
  "min_max_normalize \<lparr>index = [''A'', ''B''],
            columns = [(''period_2'', [Fin (1 / 3), Fin (5 / 7)])]\<rparr>
   = \<lparr>index = [''A'', ''B''], columns = [(''period_2'', [Fin 0, Fin 1])]\<rparr>"
  by (simp add: min_max_normalize_def frame_div_series_def frame_sub_series_def frame_min_def
      frame_max_def series_sub_def series_get_def pd_min_def pd_max_def)

lemma toy_run:
  "EfficiencyRatioAnalysis_init toy_MT5 toy_er toy_KMeans [''A'', ''B'']
       ''2015-01-01'' ''2015-02-01'' ''1h'' 2 3 2
     = Inr toy_analysis"
proof -
  have fp: "fst (KMeansClustering_fit_predict toy_KMeans (KMeansClustering_init 10 42 (Some 2))
       \<lparr>index = [''A'', ''B''], columns = [(''period_2'', [Fin 0, Fin 1])]\<rparr>)
     = Inr [0, 1]"
    by (simp add: KMeansClustering_fit_predict_def KMeansClustering_fit_def
        KMeansClustering_fit_model_def KMeansClustering_predict_def KMeans_predict_def
        KMeansClustering_init_def toy_KMeans_def has_nan_def upt_rec)
  have tc: "tickers_clusters_er toy_KMeans 2
       \<lparr>index = [''A'', ''B''], columns = [(''period_2'', [Fin (1 / 3), Fin (5 / 7)])]\<rparr>
     = Inr (\<lparr>df_index = [I 0, I 1],
              df_columns = [(''symbol'', [S ''A'', S ''B'']),
                            (''mean_er'', [F (Fin (1 / 3)), F (Fin (5 / 7))]),
                            (''cluster_label'', [I 0, I 1])]\<rparr>,
            \<lparr>df_index = [I 0, I 1],
              df_columns = [(''symbol'', [S ''A'', S ''B'']),
                            (''period_2'', [F (Fin (1 / 3)), F (Fin (5 / 7))]),
                            (''cluster_label'', [I 0, I 1]),
                            (''mean_er'', [F (Fin (1 / 3)), F (Fin (5 / 7))])]\<rparr>)"
    by (simp add: tickers_clusters_er_def toy_normalize fp to_dataframe_def set_item_def
        iloc_all_but_last_def mean_axis1_def pd_mean_def reset_index_symbol_def upt_rec)
  show ?thesis
    by (simp only: EfficiencyRatioAnalysis_init_def toy_load_data toy_calculate_er tc
        sum.case prod.case toy_analysis_def)
qed

lemma toy_fit_predict_nan:
  "fst (KMeansClustering_fit_predict toy_KMeans (KMeansClustering_init 10 42 (Some 2))
       \<lparr>index = [''A'', ''B''],
            columns = [(''period_2'', [Fin 0, Fin 1]),
                       (''period_3'', [NaN, NaN]), (''period_4'', [NaN, NaN])]\<rparr>)
     = Inl (ValueError ''Input X contains NaN.'')"
  by (simp add: KMeansClustering_fit_predict_def KMeansClustering_fit_def
      KMeansClustering_fit_model_def KMeansClustering_init_def toy_KMeans_def has_nan_def)

text \<open>
  C2, as stated, fails. Instrument \<open>A\<close> has three bars, fewer than the largest lookback
  length 4 of the range \<open>[2, 5)\<close>; instrument \<open>B\<close> has six. \<^verbatim>\<open>dropna\<close> in
  \<^verbatim>\<open>load_data\<close> removes the timestamps that \<open>A\<close> lacks, so both instruments keep three
  bars and both stay columns of the price table; both are rows of the feature matrix,
  with NaN for the lengths 3 and 4; the run does not succeed for \<open>B\<close> alone but fails as
  a whole, inside the clustering library.
\<close>

theorem short_history_counterexample:
  "load_data toy_MT5 [''A'', ''B''] ''2015-01-01'' ''2015-02-01'' ''1h''
     = Inr \<lparr>index = [0, 1, 2],
            columns = [(''A'', [Fin 1, Fin 2, Fin 4]), (''B'', [Fin 5, Fin 6, Fin 6])]\<rparr>
   \<and> calculate_er toy_er \<lparr>index = [0, 1, 2],
            columns = [(''A'', [Fin 1, Fin 2, Fin 4]), (''B'', [Fin 5, Fin 6, Fin 6])]\<rparr> 2 5
     = Inr \<lparr>index = [''A'', ''B''],
            columns = [(''period_2'', [Fin (1 / 3), Fin (5 / 7)]),
                       (''period_3'', [NaN, NaN]), (''period_4'', [NaN, NaN])]\<rparr>
   \<and> EfficiencyRatioAnalysis_init toy_MT5 toy_er toy_KMeans [''A'', ''B'']
       ''2015-01-01'' ''2015-02-01'' ''1h'' 2 5 2
     = Inl (ValueError ''Input X contains NaN.'')"
proof -
  have t: "tickers_clusters_er toy_KMeans 2 \<lparr>index = [''A'', ''B''],
            columns = [(''period_2'', [Fin (1 / 3), Fin (5 / 7)]),
                       (''period_3'', [NaN, NaN]), (''period_4'', [NaN, NaN])]\<rparr>
      = Inl (ValueError ''Input X contains NaN.'')"
    by (simp add: tickers_clusters_er_def toy_normalize_short toy_fit_predict_nan)
  have r: "EfficiencyRatioAnalysis_init toy_MT5 toy_er toy_KMeans [''A'', ''B'']
       ''2015-01-01'' ''2015-02-01'' ''1h'' 2 5 2
     = Inl (ValueError ''Input X contains NaN.'')"
    by (simp only: EfficiencyRatioAnalysis_init_def toy_load_data toy_calculate_er_short t
        sum.case)
  from toy_load_data toy_calculate_er_short r show ?thesis by (intro conjI)
qed

text \<open>
  C2, amended. Whenever the run succeeds, every instrument of the input appears exactly
  once in the final table: its \<^verbatim>\<open>symbol\<close> column lists the instruments without
  repetition and without omission, next to one mean and one label each. No instrument
  is ever left out: \<^verbatim>\<open>dropna\<close> removes timestamps of the price table, whose columns
  remain the instruments as given.
\<close>

theorem every_instrument_once:
  assumes "EfficiencyRatioAnalysis_init MT5 er_mean L tickers start_date end_date time_frame
             init_period end_period n_clusters = Inr self"
  shows "\<exists>symbols means cluster_labels.
      df_columns (era_clusters_er self)
        = [(''symbol'', map S symbols), (''mean_er'', means),
           (''cluster_label'', map I cluster_labels)]
    \<and> distinct symbols \<and> set symbols = set tickers
    \<and> length means = length symbols \<and> length cluster_labels = length symbols
    \<and> map fst (columns (era_df_tickers self)) = tickers"
proof -
  from assms obtain df_tickers df_er clusters_er df_er1 where
    l: "load_data MT5 tickers start_date end_date time_frame = Inr df_tickers"
    and c: "calculate_er er_mean df_tickers init_period end_period = Inr df_er"
    and t: "tickers_clusters_er L n_clusters df_er = Inr (clusters_er, df_er1)"
    and s1: "era_clusters_er self = clusters_er" and s2: "era_df_tickers self = df_tickers"
    by (auto simp: EfficiencyRatioAnalysis_init_def split: sum.splits prod.splits)
  note cols = load_data_columns[OF l]
  note fr = calculate_er_frame[OF c]
  note fresh = period_label_fresh[OF fr(4)]
  from tickers_clusters_er_result[OF t fr(3) fresh] obtain cluster_labels where
    len: "length cluster_labels = length (index df_er)"
    and res: "df_columns clusters_er =
        [(''symbol'', map S (index df_er)),
         (''mean_er'', map (\<lambda>i. F (pd_mean (map (\<lambda>(c, vals). vals ! i) (columns df_er))))
                          [0 ..< length (index df_er)]),
         (''cluster_label'', map I cluster_labels)]"
    by blast
  show ?thesis
    using res len fr(1) fr(2) cols s1 s2
    by (intro exI[of _ "index df_er"] exI[of _ cluster_labels]
        exI[of _ "map (\<lambda>i. F (pd_mean (map (\<lambda>(c, vals). vals ! i) (columns df_er))))
                          [0 ..< length (index df_er)]"]) simp
qed

theorem every_instrument_once_witness:
  "EfficiencyRatioAnalysis_init toy_MT5 toy_er toy_KMeans [''A'', ''B'']
         ''2015-01-01'' ''2015-02-01'' ''1h'' 2 3 2 = Inr toy_analysis
   \<and> (\<exists>symbols means cluster_labels.
      df_columns (era_clusters_er toy_analysis)
        = [(''symbol'', map S symbols), (''mean_er'', means),
           (''cluster_label'', map I cluster_labels)]
    \<and> distinct symbols \<and> set symbols = set [''A'', ''B'']
    \<and> length means = length symbols \<and> length cluster_labels = length symbols
    \<and> map fst (columns (era_df_tickers toy_analysis)) = [''A'', ''B''])"
  using every_instrument_once [OF toy_run] toy_run by (intro conjI)




end
